theory Spec2Isabelle
  imports Complex_Main "HOL-Library.Multiset"
begin

section \<open>Numbers and arrays of the source language\<close>

text \<open>
  The program is JavaScript. Its numbers are IEEE doubles; here continuous quantities
  (coordinates, velocities, health, damage, life time, noise values) are real numbers and
  counters (ammunition, bounce count, time stamps in milliseconds, table entries) are
  integers, so every arithmetic operation is the exact one. Rounding of doubles is outside
  this development.

  The remainder operator \<^verbatim>\<open>%\<close> takes the sign of its dividend.
\<close>

definition js_rem :: "int \<Rightarrow> int \<Rightarrow> int" where
  "js_rem a b = (if a < 0 then - ((- a) mod \<bar>b\<bar>) else a mod \<bar>b\<bar>)"

text \<open>
  An array is an object: reading a key that was never written gives \<^verbatim>\<open>undefined\<close>
  (here \<open>None\<close>), and writing a negative key stores a property without changing the
  length. The array \<^verbatim>\<open>p\<close> of \<^verbatim>\<open>generatePermutation\<close> is therefore a function
  from keys to optional numbers; its length stays 256 because no key above 255 is written.
\<close>

type_synonym jsarray = "int \<Rightarrow> int option"

section \<open>PerlinNoise\<close>

text \<open>
  \<^verbatim>\<open>for (let i = 0; i < 256; i++) p[i] = i;\<close>
\<close>

definition identity_table :: jsarray where
  "identity_table = (\<lambda>i. if 0 \<le> i \<and> i < 256 then Some i else None)"

text \<open>
  The shuffle loop \<^verbatim>\<open>for (let i = 255; i > 0; i--)\<close>; the first argument is \<open>i\<close>.
  \<open>rng\<close> and \<open>j\<close> are computed exactly. The source computes them in doubles, which
  agrees as long as \<open>rng * 9301 + 49297\<close> stays below \<open>2^53\<close> and the rounded product
  \<open>(rng / 233280) * (i + 1)\<close> has the floor of the exact one; that holds along the runs
  of the seeds 42 and \<open>- 6\<close> used below, but not of every seed (with seed 7999 three
  entries of the table of the source differ from the exact ones). In doubles too every
  \<open>j\<close> of a seed that is not negative lies between 0 and \<open>i\<close>.
\<close>

fun shuffle :: "nat \<Rightarrow> int \<Rightarrow> jsarray \<Rightarrow> jsarray" where
  "shuffle 0 rng p = p"
| "shuffle (Suc n) rng p =
     (let i = int (Suc n);
          rng' = js_rem (rng * 9301 + 49297) 233280;
          j = \<lfloor>(real_of_int rng' / 233280) * real_of_int (i + 1)\<rfloor>;
          pi = p i; pj = p j
      in shuffle n rng' (p(i := pj, j := pi)))"

text \<open>\<^verbatim>\<open>return p.concat(p)\<close>: the elements 0..255, twice.\<close>

definition generatePermutation :: "int \<Rightarrow> int option list" where
  "generatePermutation seed =
     (let p = shuffle 255 seed identity_table in map p [0..255] @ map p [0..255])"

text \<open>
  The shuffle in the words of the specification: the remainder is the mathematical
  \<open>mod\<close> and the table is a list of 256 numbers whose entries \<open>i\<close> and \<open>j\<close> are swapped.
\<close>

fun spec_shuffle :: "nat \<Rightarrow> int \<Rightarrow> int list \<Rightarrow> int list" where
  "spec_shuffle 0 rng p = p"
| "spec_shuffle (Suc n) rng p =
     (let i = Suc n;
          rng' = (rng * 9301 + 49297) mod 233280;
          j = nat \<lfloor>(real_of_int rng' / 233280) * real (i + 1)\<rfloor>
      in spec_shuffle n rng' (p[i := p ! j, j := p ! i]))"

definition spec_permutation :: "int \<Rightarrow> int list" where
  "spec_permutation seed = spec_shuffle 255 seed [0..255]"

definition fade :: "real \<Rightarrow> real" where
  "fade t = t * t * t * (t * (t * 6 - 15) + 10)"

definition lerp :: "real \<Rightarrow> real \<Rightarrow> real \<Rightarrow> real" where
  "lerp t a b = a + t * (b - a)"

text \<open>
  \<^verbatim>\<open>hash & 15\<close> is \<open>hash mod 16\<close>, \<^verbatim>\<open>(h & 1) === 0\<close> says that \<open>h\<close> is even and
  \<^verbatim>\<open>(h & 2) === 0\<close> that \<open>h div 2\<close> is.
\<close>

definition grad :: "int \<Rightarrow> real \<Rightarrow> real \<Rightarrow> real \<Rightarrow> real" where
  "grad hash x y z =
     (let h = hash mod 16;
          u = (if h < 8 then x else y);
          v = (if h < 4 then y else if h = 12 \<or> h = 14 then x else z)
      in (if h mod 2 = 0 then u else - u) + (if (h div 2) mod 2 = 0 then v else - v))"

text \<open>
  The noise functions read the table of a generator all of whose entries are numbers,
  given as a list of 512 integers; \<^verbatim>\<open>Math.floor(x) & 255\<close> is \<open>\<lfloor>x\<rfloor> mod 256\<close>.
  Every index stays below 512 when the entries are below 256.
\<close>

definition noise :: "int list \<Rightarrow> real \<Rightarrow> real \<Rightarrow> real \<Rightarrow> real" where
  "noise p x0 y0 z0 =
     (let X = \<lfloor>x0\<rfloor> mod 256; Y = \<lfloor>y0\<rfloor> mod 256; Z = \<lfloor>z0\<rfloor> mod 256;
          x = x0 - of_int \<lfloor>x0\<rfloor>; y = y0 - of_int \<lfloor>y0\<rfloor>; z = z0 - of_int \<lfloor>z0\<rfloor>;
          u = fade x; v = fade y; w = fade z;
          A = p ! nat X + Y;
          AA = p ! nat A + Z;
          AB = p ! nat (A + 1) + Z;
          B = p ! nat (X + 1) + Y;
          BA = p ! nat B + Z;
          BB = p ! nat (B + 1) + Z
      in lerp w
           (lerp v
              (lerp u (grad (p ! nat AA) x y z) (grad (p ! nat BA) (x - 1) y z))
              (lerp u (grad (p ! nat AB) x (y - 1) z) (grad (p ! nat BB) (x - 1) (y - 1) z)))
           (lerp v
              (lerp u (grad (p ! nat (AA + 1)) x y (z - 1))
                      (grad (p ! nat (BA + 1)) (x - 1) y (z - 1)))
              (lerp u (grad (p ! nat (AB + 1)) x (y - 1) (z - 1))
                      (grad (p ! nat (BB + 1)) (x - 1) (y - 1) (z - 1)))))"

text \<open>
  The loop of \<^verbatim>\<open>octaveNoise\<close> over (value, amplitude, frequency, maxValue); the calls
  \<^verbatim>\<open>this.noise(x * frequency, y * frequency)\<close> leave \<open>z\<close> at its default 0. The
  callers pass 4, 3 and 2 octaves; with no octave the source would divide 0 by 0.
\<close>

fun octaveLoop ::
  "int list \<Rightarrow> real \<Rightarrow> real \<Rightarrow> real \<Rightarrow> nat \<Rightarrow> real \<times> real \<times> real \<times> real
     \<Rightarrow> real \<times> real \<times> real \<times> real" where
  "octaveLoop p x y persistence 0 s = s"
| "octaveLoop p x y persistence (Suc n) (val, amplitude, frequency, maxValue) =
     octaveLoop p x y persistence n
       (val + noise p (x * frequency) (y * frequency) 0 * amplitude,
        amplitude * persistence, frequency * 2, maxValue + amplitude)"

definition octaveNoise :: "int list \<Rightarrow> real \<Rightarrow> real \<Rightarrow> nat \<Rightarrow> real \<Rightarrow> real \<Rightarrow> real" where
  "octaveNoise p x y octaves persistence scale =
     (case octaveLoop p x y persistence octaves (0, 1, scale, 0) of
        (val, amplitude, frequency, maxValue) \<Rightarrow> val / maxValue)"

text \<open>
  \<open>perm42\<close> is the table of 256 numbers that seed 42 gives (\<open>generatePermutation_42\<close>
  below computes it).
\<close>

definition perm42 :: "int list" where
  "perm42 =
    [
     94, 47, 147, 182, 164, 63, 42, 216, 128, 160, 151, 100, 238, 95, 255, 1, 40, 114,
     87, 187, 51, 229, 5, 30, 235, 184, 133, 246, 178, 129, 0, 57, 36, 113, 205, 82,
     153, 52, 93, 158, 4, 10, 189, 118, 69, 90, 58, 116, 143, 19, 175, 239, 55, 65,
     202, 206, 186, 224, 110, 232, 193, 185, 213, 177, 165, 12, 72, 146, 234, 220, 97,
     22, 53, 221, 209, 62, 80, 195, 34, 26, 46, 196, 119, 18, 49, 107, 127, 23, 134,
     227, 145, 233, 188, 75, 20, 214, 144, 181, 210, 44, 29, 142, 225, 179, 199, 126,
     217, 200, 168, 28, 66, 244, 84, 245, 14, 152, 198, 231, 138, 2, 135, 104, 130,
     132, 162, 8, 91, 172, 159, 67, 25, 157, 45, 154, 60, 105, 219, 109, 54, 150, 102,
     112, 16, 117, 79, 136, 96, 37, 83, 123, 169, 207, 139, 124, 183, 76, 171, 254,
     163, 21, 121, 218, 170, 24, 242, 149, 140, 204, 176, 71, 48, 131, 81, 17, 33,
     101, 88, 70, 56, 11, 228, 50, 68, 85, 7, 3, 92, 35, 108, 191, 59, 120, 89, 212,
     249, 236, 156, 111, 223, 241, 122, 190, 31, 99, 77, 253, 161, 86, 248, 15, 137,
     64, 201, 251, 222, 211, 6, 61, 167, 74, 41, 252, 39, 106, 203, 27, 166, 98, 173,
     125, 9, 237, 115, 73, 103, 38, 197, 155, 32, 43, 215, 240, 230, 250, 78, 247,
     192, 174, 13, 148, 180, 141, 194, 243, 208, 226]"

text \<open>
  \<^verbatim>\<open>const noise = new PerlinNoise(42)\<close>, in the server and in the client's world module:
  the table of the generator that both sides use.
\<close>

definition noise42 :: "int list" where
  "noise42 = map the (generatePermutation 42)"

section \<open>Terrain\<close>

datatype block = AIR | GRASS | DIRT | STONE | WATER | SAND | SNOW | TREE | GLASS

definition WORLD_HEIGHT :: int where "WORLD_HEIGHT = 64"

text \<open>
  \<^verbatim>\<open>Math.random()\<close> is an outside source of numbers: \<open>rnd k\<close> is the result of the
  \<open>k\<close>-th call, and every function that may call it takes the number of calls made so
  far and returns the new count.
\<close>

type_synonym random_source = "nat \<Rightarrow> real"

text \<open>
  \<^verbatim>\<open>VoxelWorld.getBlockType(x, y, z)\<close> for the generator with table \<open>p\<close>. The callers
  pass integers. The conjunction that places a tree is evaluated from left to right and
  stops at the first false conjunct, so \<^verbatim>\<open>Math.random()\<close> is called only when
  \<open>y = baseHeight + 1\<close> and the block below is grass. The noise values are exact reals:
  where a value of the source, rounded, falls on the other side of one of the thresholds
  or of an integer height, the block of the source differs from the one computed here.
\<close>

function getBlockType ::
  "int list \<Rightarrow> random_source \<Rightarrow> nat \<Rightarrow> int \<Rightarrow> int \<Rightarrow> int \<Rightarrow> block \<times> nat" where
  "getBlockType p rnd k x y z =
     (let heightNoise = octaveNoise p (of_int x) (of_int z) 4 0.5 0.01;
          moistureNoise = octaveNoise p (of_int x) (of_int z) 3 0.6 0.02;
          temperatureNoise = octaveNoise p (of_int x) (of_int z) 2 0.4 0.015;
          baseHeight = \<lfloor>20 + heightNoise * 20\<rfloor>;
          waterLevel = 15
      in if y > baseHeight + 10 then (AIR, k)
         else if y \<le> waterLevel \<and> y > baseHeight then (WATER, k)
         else if y \<le> 5 then (STONE, k)
         else if y \<le> baseHeight then
           (if temperatureNoise > 0.3 \<and> moistureNoise < - 0.2 \<and> y = baseHeight then (SAND, k)
            else if temperatureNoise < - 0.3 \<and> y = baseHeight then (SNOW, k)
            else if y = baseHeight then (GRASS, k)
            else if y > baseHeight - 3 then (DIRT, k)
            else (STONE, k))
         else if y = baseHeight + 1 then
           (case getBlockType p rnd k x (y - 1) z of
              (below, k1) \<Rightarrow>
                if below = GRASS then
                  (if rnd k1 < 0.01 then
                     (if temperatureNoise > - 0.2 then (TREE, Suc k1) else (AIR, Suc k1))
                   else (AIR, Suc k1))
                else (AIR, k1))
         else (AIR, k))"
  by pat_completeness auto
termination
  by (relation "measure (\<lambda>(p, rnd, k, x, y, z).
        if y = \<lfloor>20 + octaveNoise p (of_int x) (of_int z) 4 0.5 0.01 * 20\<rfloor> + 1 then 1 else 0)")
     auto

declare getBlockType.simps [simp del]

text \<open>The server's \<^verbatim>\<open>getTerrainHeight(x, z)\<close>, a closed form.\<close>

definition getTerrainHeight :: "int list \<Rightarrow> real \<Rightarrow> real \<Rightarrow> int" where
  "getTerrainHeight p x z =
     (let heightNoise = octaveNoise p x z 4 0.5 0.01;
          baseHeight = \<lfloor>20 + heightNoise * 20\<rfloor>
      in baseHeight + 1)"

text \<open>
  The client's \<^verbatim>\<open>getTerrainHeight(x, z)\<close> of the player module: the loop
  \<^verbatim>\<open>for (let y = CONFIG.WORLD_HEIGHT - 1; y >= 0; y--)\<close> from its current \<open>y\<close>.
\<close>

function scanDown ::
  "int list \<Rightarrow> random_source \<Rightarrow> nat \<Rightarrow> real \<Rightarrow> real \<Rightarrow> int \<Rightarrow> int \<times> nat" where
  "scanDown p rnd k x z y =
     (if y \<ge> 0 then
        (case getBlockType p rnd k \<lfloor>x\<rfloor> y \<lfloor>z\<rfloor> of
           (b, k1) \<Rightarrow> if b \<noteq> AIR then (y + 1, k1) else scanDown p rnd k1 x z (y - 1))
      else (0, k))"
  by pat_completeness auto
termination
  by (relation "measure (\<lambda>(p, rnd, k, x, z, y). nat (y + 1))") auto

declare scanDown.simps [simp del]

definition player_getTerrainHeight ::
  "int list \<Rightarrow> random_source \<Rightarrow> nat \<Rightarrow> real \<Rightarrow> real \<Rightarrow> int \<times> nat" where
  "player_getTerrainHeight p rnd k x z = scanDown p rnd k x z (WORLD_HEIGHT - 1)"

text \<open>\<^verbatim>\<open>Enemy.getTerrainHeight(x, z)\<close>: the closed form without the final \<open>+ 1\<close>.\<close>

definition enemy_getTerrainHeight :: "int list \<Rightarrow> real \<Rightarrow> real \<Rightarrow> int" where
  "enemy_getTerrainHeight p x z =
     (let heightNoiseVal = octaveNoise p x z 4 0.5 0.01
      in \<lfloor>20 + heightNoiseVal * 20\<rfloor>)"

section \<open>The server\<close>

text \<open>The constants of the server's \<^verbatim>\<open>CONFIG\<close> that the modelled functions read.\<close>

definition PLAYER_HEIGHT :: real where "PLAYER_HEIGHT = 1.8"
definition BULLET_DAMAGE :: real where "BULLET_DAMAGE = 25"
definition BULLET_GRAVITY :: real where "BULLET_GRAVITY = - 15"
definition BULLET_BOUNCE_DAMPENING :: real where "BULLET_BOUNCE_DAMPENING = 0.4"
definition BULLET_MAX_BOUNCES :: int where "BULLET_MAX_BOUNCES = 3"
definition AMMO_CAPACITY :: int where "AMMO_CAPACITY = 30"
definition TOTAL_AMMO :: int where "TOTAL_AMMO = 120"
definition MAX_HEALTH :: real where "MAX_HEALTH = 100"

record vec3 =
  vx :: real
  vy :: real
  vz :: real

subsection \<open>ServerPlayer\<close>

record ServerPlayer =
  sp_id :: string
  sp_socketId :: string
  sp_position :: vec3
  sp_rotation :: vec3
  sp_velocity :: vec3
  sp_health :: real
  sp_ammo :: int
  sp_totalAmmo :: int
  sp_lastShot :: int
  sp_isAlive :: bool
  sp_inputSequence :: int
  sp_lastInputTime :: int
  sp_isGrounded :: bool

text \<open>The constructor; \<open>now\<close> is the value of \<^verbatim>\<open>Date.now()\<close>.\<close>

definition new_ServerPlayer :: "int list \<Rightarrow> int \<Rightarrow> string \<Rightarrow> string \<Rightarrow> ServerPlayer" where
  "new_ServerPlayer p now ident socketId =
     \<lparr> sp_id = ident, sp_socketId = socketId,
       sp_position = \<lparr> vx = 0, vy = of_int (getTerrainHeight p 0 0) + PLAYER_HEIGHT, vz = 0 \<rparr>,
       sp_rotation = \<lparr> vx = 0, vy = 0, vz = 0 \<rparr>,
       sp_velocity = \<lparr> vx = 0, vy = 0, vz = 0 \<rparr>,
       sp_health = MAX_HEALTH, sp_ammo = AMMO_CAPACITY, sp_totalAmmo = TOTAL_AMMO,
       sp_lastShot = 0, sp_isAlive = True, sp_inputSequence = 0, sp_lastInputTime = now,
       sp_isGrounded = False \<rparr>"

text \<open>
  \<^verbatim>\<open>takeDamage(damage, sourceId)\<close>: the player after the call and the returned value
  \<^verbatim>\<open>!this.isAlive\<close>. The second argument is not used by the body.
\<close>

definition ServerPlayer_takeDamage :: "ServerPlayer \<Rightarrow> real \<Rightarrow> ServerPlayer \<times> bool" where
  "ServerPlayer_takeDamage this damage =
     (let this1 = this\<lparr> sp_health := sp_health this - damage \<rparr>;
          this2 = (if sp_health this1 \<le> 0
                   then this1\<lparr> sp_isAlive := False, sp_health := 0 \<rparr> else this1)
      in (this2, \<not> sp_isAlive this2))"

subsection \<open>ServerBullet\<close>

text \<open>
  A bullet's id is the template string \<^verbatim>\<open>bullet_${socket.id}_${bulletIdCounter}\<close>, kept
  as the pair of its two variable parts.
\<close>

type_synonym bullet_id = "string \<times> nat"

record ServerBullet =
  sb_id :: bullet_id
  sb_position :: vec3
  sb_velocity :: vec3
  sb_damage :: real
  sb_ownerId :: string
  sb_life :: real
  sb_bounceCount :: int
  sb_isActive :: bool

definition new_ServerBullet ::
  "bullet_id \<Rightarrow> vec3 \<Rightarrow> vec3 \<Rightarrow> real \<Rightarrow> string \<Rightarrow> ServerBullet" where
  "new_ServerBullet ident position velocity damage ownerId =
     \<lparr> sb_id = ident, sb_position = position, sb_velocity = velocity, sb_damage = damage,
       sb_ownerId = ownerId, sb_life = 5.0, sb_bounceCount = 0, sb_isActive = True \<rparr>"

text \<open>The payload of the \<^verbatim>\<open>player-hit\<close>, \<^verbatim>\<open>player-shot\<close> and \<^verbatim>\<open>player-reloaded\<close> messages.\<close>

datatype message =
  PlayerHit (targetId: string) (shooterId: string) (hit_damage: real) (hit_position: vec3)
    (killed: bool)
| PlayerShot (shot_playerId: string) (shot_bulletId: bullet_id) (shot_position: vec3)
    (shot_velocity: vec3) (shot_timestamp: int)
| PlayerReloaded (reloaded_ammo: int) (reloaded_totalAmmo: int)

text \<open>
  \<^verbatim>\<open>gameState.players\<close> and \<^verbatim>\<open>gameState.bullets\<close> are \<^verbatim>\<open>Map\<close>s, iterated in insertion
  order: association lists with distinct keys. \<^verbatim>\<open>Map.set\<close> replaces the value of a key
  that is present, in place, and appends a new key at the end.
\<close>

fun Map_set :: "'k \<Rightarrow> 'v \<Rightarrow> ('k \<times> 'v) list \<Rightarrow> ('k \<times> 'v) list" where
  "Map_set k v [] = [(k, v)]"
| "Map_set k v ((k', v') # m) = (if k' = k then (k, v) # m else (k', v') # Map_set k v m)"

definition Map_get :: "('k \<times> 'v) list \<Rightarrow> 'k \<Rightarrow> 'v option" where
  "Map_get m k = map_of m k"

text \<open>
  The loop over the players at the end of \<^verbatim>\<open>ServerBullet.update\<close>, run on the bullet
  \<open>this\<close> at its new position. It stops at the first player in range, who takes the
  damage: the result is then the players after the hit and the broadcast message.
\<close>

fun checkPlayerCollisions ::
  "ServerBullet \<Rightarrow> (string \<times> ServerPlayer) list
     \<Rightarrow> ((string \<times> ServerPlayer) list \<times> message) option" where
  "checkPlayerCollisions this [] = None"
| "checkPlayerCollisions this ((playerId, player) # rest) =
     (if playerId = sb_ownerId this \<or> \<not> sp_isAlive player then
        map_option (\<lambda>(ps, m). ((playerId, player) # ps, m)) (checkPlayerCollisions this rest)
      else
        let distance = sqrt ((vx (sb_position this) - vx (sp_position player)) ^ 2
                           + (vy (sb_position this) - vy (sp_position player)) ^ 2
                           + (vz (sb_position this) - vz (sp_position player)) ^ 2)
        in if distance < 1.0 then
             (case ServerPlayer_takeDamage player (sb_damage this) of
                (player', was_killed) \<Rightarrow>
                  Some ((playerId, player') # rest,
                        PlayerHit playerId (sb_ownerId this) (sb_damage this)
                          (sb_position this) was_killed))
           else
             map_option (\<lambda>(ps, m). ((playerId, player) # ps, m))
               (checkPlayerCollisions this rest))"

text \<open>
  \<^verbatim>\<open>ServerBullet.update(delta)\<close> for the generator with table \<open>p\<close>: the bullet and the
  players after the call, the messages broadcast, and the returned boolean. The ground
  collision either returns early (\<open>None\<close>) or hands the bullet, bounced or not, to the
  checks that follow.
\<close>

definition ServerBullet_update ::
  "int list \<Rightarrow> real \<Rightarrow> (string \<times> ServerPlayer) list \<Rightarrow> ServerBullet
     \<Rightarrow> ServerBullet \<times> (string \<times> ServerPlayer) list \<times> message list \<times> bool" where
  "ServerBullet_update p delta players this =
     (if \<not> sb_isActive this then (this, players, [], False)
      else
        let v1 = (sb_velocity this)\<lparr> vy := vy (sb_velocity this) + BULLET_GRAVITY * delta \<rparr>;
            pos1 = \<lparr> vx = vx (sb_position this) + vx v1 * delta,
                     vy = vy (sb_position this) + vy v1 * delta,
                     vz = vz (sb_position this) + vz v1 * delta \<rparr>;
            this1 = this\<lparr> sb_velocity := v1, sb_position := pos1 \<rparr>;
            terrainHeight = getTerrainHeight p (vx pos1) (vz pos1)
        in case (if vy pos1 < of_int terrainHeight then
                   (if sb_bounceCount this1 < BULLET_MAX_BOUNCES then
                      Some (this1\<lparr> sb_position := pos1\<lparr> vy := of_int terrainHeight \<rparr>,
                                   sb_velocity := v1\<lparr> vy := - vy v1 * BULLET_BOUNCE_DAMPENING \<rparr>,
                                   sb_bounceCount := sb_bounceCount this1 + 1 \<rparr>)
                    else None)
                 else Some this1) of
             None \<Rightarrow> (this1\<lparr> sb_isActive := False \<rparr>, players, [], False)
           | Some this2 \<Rightarrow>
               if vy (sb_position this2) > of_int WORLD_HEIGHT + 50
               then (this2\<lparr> sb_isActive := False \<rparr>, players, [], False)
               else
                 let this3 = this2\<lparr> sb_life := sb_life this2 - delta \<rparr>
                 in if sb_life this3 \<le> 0
                    then (this3\<lparr> sb_isActive := False \<rparr>, players, [], False)
                    else
                      (case checkPlayerCollisions this3 players of
                         Some (players', m) \<Rightarrow>
                           (this3\<lparr> sb_isActive := False \<rparr>, players', [m], False)
                       | None \<Rightarrow> (this3, players, [], True)))"

subsection \<open>The socket handlers for shooting and reloading\<close>

record server_state =
  players :: "(string \<times> ServerPlayer) list"
  bullets :: "(bullet_id \<times> ServerBullet) list"
  bulletIdCounter :: nat

text \<open>
  The handler of \<^verbatim>\<open>player-shoot\<close> on the socket \<open>socket_id\<close>; \<open>now\<close> is the value of
  \<^verbatim>\<open>Date.now()\<close> and \<open>(position, velocity)\<close> is the message's data. The result is the
  state after the handler and the messages it broadcasts. The player object is mutated in
  place, so its entry keeps its place in the map.
\<close>

definition player_shoot ::
  "server_state \<Rightarrow> string \<Rightarrow> int \<Rightarrow> vec3 \<Rightarrow> vec3 \<Rightarrow> server_state \<times> message list" where
  "player_shoot s socket_id now position velocity =
     (case Map_get (players s) socket_id of
        None \<Rightarrow> (s, [])
      | Some player \<Rightarrow>
          if \<not> sp_isAlive player \<or> sp_ammo player \<le> 0 then (s, [])
          else if now - sp_lastShot player < 150 then (s, [])
          else
            let player' = player\<lparr> sp_lastShot := now, sp_ammo := sp_ammo player - 1 \<rparr>;
                counter = Suc (bulletIdCounter s);
                bulletId = (socket_id, counter);
                bullet = new_ServerBullet bulletId position velocity BULLET_DAMAGE socket_id
            in (s\<lparr> players := Map_set socket_id player' (players s),
                    bullets := Map_set bulletId bullet (bullets s),
                    bulletIdCounter := counter \<rparr>,
                [PlayerShot socket_id bulletId position velocity now]))"

text \<open>The handler of \<^verbatim>\<open>player-reload\<close>.\<close>

definition player_reload :: "server_state \<Rightarrow> string \<Rightarrow> server_state \<times> message list" where
  "player_reload s socket_id =
     (case Map_get (players s) socket_id of
        None \<Rightarrow> (s, [])
      | Some player \<Rightarrow>
          if sp_ammo player \<ge> AMMO_CAPACITY \<or> sp_totalAmmo player \<le> 0 then (s, [])
          else
            let needed = AMMO_CAPACITY - sp_ammo player;
                available = min needed (sp_totalAmmo player);
                player' = player\<lparr> sp_ammo := sp_ammo player + available,
                                  sp_totalAmmo := sp_totalAmmo player - available \<rparr>
            in (s\<lparr> players := Map_set socket_id player' (players s) \<rparr>,
                [PlayerReloaded (sp_ammo player') (sp_totalAmmo player')]))"

text \<open>
  The bullets that the server can hold: a bullet as its constructor builds it, and every
  bullet that \<^verbatim>\<open>update\<close> leaves behind, whatever the time step and the players.
\<close>

inductive reachable_bullet :: "int list \<Rightarrow> ServerBullet \<Rightarrow> bool" for p where
  created: "reachable_bullet p (new_ServerBullet ident position velocity damage ownerId)"
| updated: "reachable_bullet p b \<Longrightarrow>
     reachable_bullet p (fst (ServerBullet_update p delta ps b))"

section \<open>The client\<close>

text \<open>
  The constants of the client's \<^verbatim>\<open>CONFIG\<close>; its \<^verbatim>\<open>AMMO_CAPACITY\<close>, \<^verbatim>\<open>TOTAL_AMMO\<close>,
  \<^verbatim>\<open>MAX_HEALTH\<close> and \<^verbatim>\<open>WORLD_HEIGHT\<close> are those of the server.
\<close>

definition BLOCK_SIZE :: real where "BLOCK_SIZE = 1"
definition BULLET_SPEED :: real where "BULLET_SPEED = 100"

subsection \<open>Vectors\<close>

text \<open>
  The methods of the vector class of the rendering library that the simulation calls;
  \<^verbatim>\<open>normalize\<close> divides by \<^verbatim>\<open>length() || 1\<close>.
\<close>

definition addScaledVector :: "vec3 \<Rightarrow> vec3 \<Rightarrow> real \<Rightarrow> vec3" where
  "addScaledVector a v s = \<lparr> vx = vx a + vx v * s, vy = vy a + vy v * s, vz = vz a + vz v * s \<rparr>"

definition subVectors :: "vec3 \<Rightarrow> vec3 \<Rightarrow> vec3" where
  "subVectors a b = \<lparr> vx = vx a - vx b, vy = vy a - vy b, vz = vz a - vz b \<rparr>"

definition multiplyScalar :: "vec3 \<Rightarrow> real \<Rightarrow> vec3" where
  "multiplyScalar v s = \<lparr> vx = vx v * s, vy = vy v * s, vz = vz v * s \<rparr>"

definition vlength :: "vec3 \<Rightarrow> real" where
  "vlength v = sqrt (vx v * vx v + vy v * vy v + vz v * vz v)"

definition normalize :: "vec3 \<Rightarrow> vec3" where
  "normalize v = (let l = vlength v in multiplyScalar v (1 / (if l = 0 then 1 else l)))"

definition distanceTo :: "vec3 \<Rightarrow> vec3 \<Rightarrow> real" where
  "distanceTo a b = vlength (subVectors a b)"

subsection \<open>The state of the client\<close>

record Bullet =
  b_velocity :: vec3
  b_damage :: real
  b_life :: real
  b_active :: bool
  b_position :: vec3
  b_previousPosition :: vec3

text \<open>\<^verbatim>\<open>new Bullet(weaponSystemRef)\<close>: inactive, at the origin.\<close>

definition new_Bullet :: Bullet where
  "new_Bullet =
     \<lparr> b_velocity = \<lparr> vx = 0, vy = 0, vz = 0 \<rparr>, b_damage = 0, b_life = 0, b_active = False,
       b_position = \<lparr> vx = 0, vy = 0, vz = 0 \<rparr>,
       b_previousPosition = \<lparr> vx = 0, vy = 0, vz = 0 \<rparr> \<rparr>"

text \<open>An enemy; \<open>e_mesh\<close> is the position of its mesh, \<open>None\<close> once \<^verbatim>\<open>destroy\<close> has run.\<close>

record Enemy =
  e_health :: real
  e_maxHealth :: real
  e_speed :: real
  e_damage :: real
  e_lastAttack :: int
  e_attackCooldown :: int
  e_mesh :: "vec3 option"

datatype weapon_name = pistol | rifle | shotgun

record weapon =
  w_damage :: real
  w_fireRate :: int
  w_accuracy :: real
  w_ammoCapacity :: int
  w_reloadTime :: int
  w_pellets :: "nat option"

fun weapons :: "weapon_name \<Rightarrow> weapon" where
  "weapons pistol = \<lparr> w_damage = 25, w_fireRate = 300, w_accuracy = 0.95, w_ammoCapacity = 12,
                      w_reloadTime = 1500, w_pellets = None \<rparr>"
| "weapons rifle = \<lparr> w_damage = 40, w_fireRate = 150, w_accuracy = 0.85, w_ammoCapacity = 30,
                     w_reloadTime = 2000, w_pellets = None \<rparr>"
| "weapons shotgun = \<lparr> w_damage = 80, w_fireRate = 800, w_accuracy = 0.6, w_ammoCapacity = 6,
                       w_reloadTime = 2500, w_pellets = Some 5 \<rparr>"

text \<open>
  The objects of the client are shared and mutated in place, so bullets and enemies live in
  a store and the arrays hold references. The reference of a bullet is the value of
  \<^verbatim>\<open>bulletPool.created\<close> when it was constructed. The fields are those of
  \<^verbatim>\<open>gameState\<close> (\<open>g_\<close>), of the weapon system (\<open>ws_\<close>) and of the enemy module;
  \<open>ws_init\<close> says that \<^verbatim>\<open>WeaponSystem.init\<close> has set the scene, the game state and the
  interface callback, \<open>enemy_init\<close> that \<^verbatim>\<open>initEnemySystem\<close> has run, and \<open>draws\<close> counts
  the calls of \<^verbatim>\<open>Math.random()\<close>. Meshes, lights and the display are left out.
\<close>

record client_state =
  g_health :: real
  g_ammo :: int
  g_totalAmmo :: int
  g_score :: int
  g_enemies :: "nat list"
  g_bullets :: "nat list"
  bullet_obj :: "nat \<Rightarrow> Bullet"
  enemy_obj :: "nat \<Rightarrow> Enemy"
  ws_currentWeapon :: weapon_name
  ws_lastShot :: int
  ws_isReloading :: bool
  ws_pool_available :: "nat list"
  ws_pool_capacity :: nat
  ws_pool_created :: nat
  ws_init :: bool
  enemy_init :: bool
  draws :: nat

subsection \<open>Enemy\<close>

text \<open>\<^verbatim>\<open>Enemy.destroy()\<close> for the enemy with reference \<open>this\<close>.\<close>

definition Enemy_destroy :: "nat \<Rightarrow> client_state \<Rightarrow> client_state" where
  "Enemy_destroy this s =
     (let s1 = (if enemy_init s then s\<lparr> g_enemies := remove1 this (g_enemies s) \<rparr> else s)
      in s1\<lparr> enemy_obj := (enemy_obj s1)(this := (enemy_obj s1 this)\<lparr> e_mesh := None \<rparr>) \<rparr>)"

text \<open>\<^verbatim>\<open>Enemy.takeDamage(damageAmount)\<close>: the state after the call and the returned boolean.\<close>

definition Enemy_takeDamage :: "nat \<Rightarrow> real \<Rightarrow> client_state \<Rightarrow> client_state \<times> bool" where
  "Enemy_takeDamage this damageAmount s =
     (if \<not> enemy_init s then (s, False)
      else
        let e = (enemy_obj s this)\<lparr> e_health := e_health (enemy_obj s this) - damageAmount \<rparr>;
            s1 = s\<lparr> enemy_obj := (enemy_obj s)(this := e) \<rparr>
        in if e_health e \<le> 0 then
             (let s2 = Enemy_destroy this s1
              in (s2\<lparr> g_score := g_score s2 + 100 \<rparr>, True))
           else (s1, False))"

subsection \<open>Bullet\<close>

text \<open>\<^verbatim>\<open>WeaponSystem.releaseBullet(bullet)\<close> and \<^verbatim>\<open>Bullet.deactivate()\<close>.\<close>

definition releaseBullet :: "nat \<Rightarrow> client_state \<Rightarrow> client_state" where
  "releaseBullet bullet s =
     (if length (ws_pool_available s) < ws_pool_capacity s
      then s\<lparr> ws_pool_available := ws_pool_available s @ [bullet] \<rparr>
      else s)"

definition Bullet_deactivate :: "nat \<Rightarrow> client_state \<Rightarrow> client_state" where
  "Bullet_deactivate this s =
     (let s1 = s\<lparr> bullet_obj := (bullet_obj s)(this := (bullet_obj s this)\<lparr> b_active := False \<rparr>) \<rparr>;
          s2 = (if ws_init s1 then s1\<lparr> g_bullets := remove1 this (g_bullets s1) \<rparr> else s1)
      in releaseBullet this s2)"

text \<open>
  The loop \<^verbatim>\<open>for (let i = 1; i <= steps; i++)\<close> over the points of the path, from its
  current \<open>i\<close>: whether a point lies in a block that is neither air nor water, and the
  number of random draws after the loop.
\<close>

function checkPath ::
  "int list \<Rightarrow> random_source \<Rightarrow> vec3 \<Rightarrow> vec3 \<Rightarrow> real \<Rightarrow> nat \<Rightarrow> nat \<Rightarrow> nat \<Rightarrow> bool \<times> nat" where
  "checkPath p rnd previousPosition bulletPath pathLength steps i k =
     (if i \<le> steps then
        let stepLength = (pathLength / real steps) * real i;
            checkPoint = addScaledVector previousPosition bulletPath stepLength
        in case getBlockType p rnd k \<lfloor>vx checkPoint\<rfloor> \<lfloor>vy checkPoint\<rfloor> \<lfloor>vz checkPoint\<rfloor> of
             (blockType, k1) \<Rightarrow>
               if blockType \<noteq> AIR \<and> blockType \<noteq> WATER then (True, k1)
               else checkPath p rnd previousPosition bulletPath pathLength steps (Suc i) k1
      else (False, k))"
  by pat_completeness auto
termination
  by (relation "measure (\<lambda>(p, rnd, prev, path, len, steps, i, k). Suc steps - i)") auto

declare checkPath.simps [simp del]

text \<open>
  The terrain part of \<^verbatim>\<open>Bullet.update\<close> for a bullet that has moved from
  \<open>previousPosition\<close> to \<open>position\<close>: whether it collided, and the number of draws.
\<close>

definition terrainCollision ::
  "int list \<Rightarrow> random_source \<Rightarrow> vec3 \<Rightarrow> vec3 \<Rightarrow> nat \<Rightarrow> bool \<times> nat" where
  "terrainCollision p rnd previousPosition position k =
     (let bulletPath = subVectors position previousPosition;
          pathLength = vlength bulletPath
      in if pathLength > 0 then
           let steps = max 1 (nat \<lceil>pathLength / (BLOCK_SIZE * 0.75)\<rceil>)
           in checkPath p rnd previousPosition (normalize bulletPath) pathLength steps 1 k
         else
           case getBlockType p rnd k \<lfloor>vx position\<rfloor> \<lfloor>vy position\<rfloor> \<lfloor>vz position\<rfloor> of
             (blockType, k1) \<Rightarrow> (blockType \<noteq> AIR \<and> blockType \<noteq> WATER, k1))"

text \<open>
  \<^verbatim>\<open>Bullet.update(delta)\<close> for the bullet with reference \<open>this\<close>. Every \<^verbatim>\<open>return\<close> of
  the body is a bare one and so is its end: the value of a call is \<^verbatim>\<open>undefined\<close>, here
  \<open>None\<close>, where a returned boolean would be \<open>Some\<close>.
\<close>

definition Bullet_update ::
  "int list \<Rightarrow> random_source \<Rightarrow> real \<Rightarrow> nat \<Rightarrow> client_state \<Rightarrow> client_state \<times> bool option" where
  "Bullet_update p rnd delta this s =
     (if \<not> b_active (bullet_obj s this) then (s, None)
      else
        let b = bullet_obj s this;
            b1 = b\<lparr> b_previousPosition := b_position b,
                    b_position := addScaledVector (b_position b) (b_velocity b) delta \<rparr>;
            s1 = s\<lparr> bullet_obj := (bullet_obj s)(this := b1) \<rparr>
        in case (if ws_init s1 then
                   find (\<lambda>enemy. case e_mesh (enemy_obj s1 enemy) of
                                    None \<Rightarrow> False
                                  | Some mesh_position \<Rightarrow> distanceTo (b_position b1) mesh_position < 1.0)
                     (g_enemies s1)
                 else None) of
             Some enemy \<Rightarrow>
               (Bullet_deactivate this (fst (Enemy_takeDamage enemy (b_damage b1) s1)), None)
           | None \<Rightarrow>
               (case terrainCollision p rnd (b_previousPosition b1) (b_position b1) (draws s1) of
                  (collidedWithTerrain, k1) \<Rightarrow>
                    let s2 = s1\<lparr> draws := k1 \<rparr>
                    in if collidedWithTerrain then (Bullet_deactivate this s2, None)
                       else
                         let s3 = s2\<lparr> bullet_obj :=
                                     (bullet_obj s2)(this := b1\<lparr> b_life := b_life b1 - delta \<rparr>) \<rparr>
                         in if b_life (bullet_obj s3 this) \<le> 0
                            then (Bullet_deactivate this s3, None)
                            else (s3, None)))"

subsection \<open>WeaponSystem\<close>

text \<open>\<^verbatim>\<open>acquireBullet()\<close>: the reference of the bullet and the state after the call.\<close>

definition acquireBullet :: "client_state \<Rightarrow> nat \<times> client_state" where
  "acquireBullet s =
     (if length (ws_pool_available s) > 0
      then (last (ws_pool_available s),
            s\<lparr> ws_pool_available := butlast (ws_pool_available s) \<rparr>)
      else (ws_pool_created s,
            s\<lparr> bullet_obj := (bullet_obj s)(ws_pool_created s := new_Bullet),
               ws_pool_created := Suc (ws_pool_created s) \<rparr>))"

text \<open>\<^verbatim>\<open>Bullet.init(position, direction, damage)\<close>.\<close>

definition Bullet_init :: "nat \<Rightarrow> vec3 \<Rightarrow> vec3 \<Rightarrow> real \<Rightarrow> client_state \<Rightarrow> client_state" where
  "Bullet_init this position direction damage s =
     (let b = (bullet_obj s this)\<lparr> b_position := position, b_previousPosition := position,
                 b_velocity := multiplyScalar direction BULLET_SPEED, b_damage := damage,
                 b_life := 3, b_active := True \<rparr>;
          s1 = s\<lparr> bullet_obj := (bullet_obj s)(this := b) \<rparr>
      in if ws_init s1 then s1\<lparr> g_bullets := g_bullets s1 @ [this] \<rparr> else s1)"

text \<open>\<^verbatim>\<open>canShoot()\<close>; \<open>now\<close> is the value of \<^verbatim>\<open>Date.now()\<close>.\<close>

definition canShoot :: "client_state \<Rightarrow> int \<Rightarrow> bool" where
  "canShoot s now =
     (if \<not> ws_init s then False
      else
        let weapon = weapons (ws_currentWeapon s)
        in \<not> ws_isReloading s \<and> g_ammo s > 0 \<and> now - ws_lastShot s > w_fireRate weapon)"

text \<open>
  One turn of the loop over the pellets in \<^verbatim>\<open>fireWeapon\<close>: three draws spread the
  direction, then a bullet is taken from the pool and launched.
\<close>

definition firePellet ::
  "random_source \<Rightarrow> weapon \<Rightarrow> vec3 \<Rightarrow> vec3 \<Rightarrow> real \<Rightarrow> client_state \<Rightarrow> client_state" where
  "firePellet rnd weaponData weaponWorldPosition cameraDirection damagePerPellet s =
     (let spread = (1 - w_accuracy weaponData) * 0.1;
          k = draws s;
          bulletDirection = normalize
            \<lparr> vx = vx cameraDirection + (rnd k - 0.5) * spread,
              vy = vy cameraDirection + (rnd (k + 1) - 0.5) * spread,
              vz = vz cameraDirection + (rnd (k + 2) - 0.5) * spread \<rparr>
      in case acquireBullet (s\<lparr> draws := k + 3 \<rparr>) of
           (bullet, s1) \<Rightarrow> Bullet_init bullet weaponWorldPosition bulletDirection damagePerPellet s1)"

fun firePellets ::
  "random_source \<Rightarrow> weapon \<Rightarrow> vec3 \<Rightarrow> vec3 \<Rightarrow> real \<Rightarrow> nat \<Rightarrow> client_state \<Rightarrow> client_state" where
  "firePellets rnd weaponData weaponWorldPosition cameraDirection damagePerPellet 0 s = s"
| "firePellets rnd weaponData weaponWorldPosition cameraDirection damagePerPellet (Suc n) s =
     firePellets rnd weaponData weaponWorldPosition cameraDirection damagePerPellet n
       (firePellet rnd weaponData weaponWorldPosition cameraDirection damagePerPellet s)"

text \<open>
  \<^verbatim>\<open>fireWeapon()\<close>: the state after the call and the returned boolean. The position of
  the weapon and the direction of the camera are read from the scene, so they are arguments
  here, and both readings of the clock give \<open>now\<close>. \<^verbatim>\<open>weaponData.pellets || 1\<close> is 1 when
  the weapon has no pellet count or the count 0.
\<close>

definition fireWeapon ::
  "random_source \<Rightarrow> int \<Rightarrow> vec3 \<Rightarrow> vec3 \<Rightarrow> client_state \<Rightarrow> client_state \<times> bool" where
  "fireWeapon rnd now weaponWorldPosition cameraDirection s =
     (if \<not> canShoot s now \<or> \<not> ws_init s then (s, False)
      else
        let weaponData = weapons (ws_currentWeapon s);
            s1 = s\<lparr> ws_lastShot := now \<rparr>;
            pelletCount = (case w_pellets weaponData of
                             None \<Rightarrow> 1
                           | Some n \<Rightarrow> if n = 0 then 1 else n);
            damagePerPellet = w_damage weaponData / real pelletCount;
            s2 = firePellets rnd weaponData weaponWorldPosition cameraDirection
                   damagePerPellet pelletCount s1
        in (s2\<lparr> g_ammo := g_ammo s2 - 1 \<rparr>, True))"

text \<open>
  \<^verbatim>\<open>reload()\<close> starts a reload and sets a timer of \<^verbatim>\<open>weaponData.reloadTime\<close>
  milliseconds (the second component, \<open>None\<close> when the call is rejected);
  \<open>reload_timeout\<close> is the callback that the timer runs.
\<close>

definition reload :: "client_state \<Rightarrow> client_state \<times> int option" where
  "reload s =
     (if \<not> ws_init s then (s, None)
      else if ws_isReloading s \<or> g_totalAmmo s \<le> 0 \<or> g_ammo s = AMMO_CAPACITY then (s, None)
      else
        let weaponData = weapons (ws_currentWeapon s)
        in (s\<lparr> ws_isReloading := True \<rparr>, Some (w_reloadTime weaponData)))"

definition reload_timeout :: "client_state \<Rightarrow> client_state" where
  "reload_timeout s =
     (let needed = AMMO_CAPACITY - g_ammo s;
          available = min needed (g_totalAmmo s)
      in s\<lparr> g_ammo := g_ammo s + available,
            g_totalAmmo := g_totalAmmo s - available,
            ws_isReloading := False \<rparr>)"

subsection \<open>Initial state\<close>

text \<open>
  \<^verbatim>\<open>new Enemy(x, z)\<close>: 50 health points, standing one unit above the terrain.
\<close>

definition new_Enemy :: "int list \<Rightarrow> real \<Rightarrow> real \<Rightarrow> Enemy" where
  "new_Enemy p x z =
     \<lparr> e_health = 50, e_maxHealth = 50, e_speed = 2, e_damage = 20, e_lastAttack = 0,
       e_attackCooldown = 2000,
       e_mesh = Some \<lparr> vx = x, vy = of_int (enemy_getTerrainHeight p x z + 1), vz = z \<rparr> \<rparr>"

text \<open>
  The client when its modules are loaded: the literal \<^verbatim>\<open>gameState\<close> and a new
  \<^verbatim>\<open>WeaponSystem\<close>, with no object in the store yet. \<open>started_client\<close> is the state
  after the start-up code has called \<^verbatim>\<open>weaponSystem.init\<close> and \<^verbatim>\<open>initEnemySystem\<close>.
\<close>

definition initial_client :: client_state where
  "initial_client =
     \<lparr> g_health = MAX_HEALTH, g_ammo = AMMO_CAPACITY, g_totalAmmo = TOTAL_AMMO, g_score = 0,
       g_enemies = [], g_bullets = [],
       bullet_obj = (\<lambda>r. new_Bullet), enemy_obj = (\<lambda>r. new_Enemy noise42 0 0),
       ws_currentWeapon = rifle, ws_lastShot = 0, ws_isReloading = False,
       ws_pool_available = [], ws_pool_capacity = 50, ws_pool_created = 0,
       ws_init = False, enemy_init = False, draws = 0 \<rparr>"

definition started_client :: client_state where
  "started_client = initial_client\<lparr> ws_init := True, enemy_init := True \<rparr>"

section \<open>Auxiliary notions for the proofs\<close>

text \<open>A random source that returns the same number at every call.\<close>

definition constant_source :: "real \<Rightarrow> random_source" where
  "constant_source c = (\<lambda>k. c)"

text \<open>
  The array \<open>p\<close> holds exactly the numbers of the list \<open>xs\<close> at the keys 0..255 and
  nothing at any other key.
\<close>

definition represents :: "jsarray \<Rightarrow> int list \<Rightarrow> bool" where
  "represents p xs \<longleftrightarrow>
     length xs = 256 \<and> (\<forall>k. p k = (if 0 \<le> k \<and> k < 256 then Some (xs ! nat k) else None))"

text \<open>The states of the worked examples.\<close>

definition wounded_player :: ServerPlayer where
  "wounded_player = (new_ServerPlayer noise42 0 ''A'' ''A'')\<lparr> sp_health := 10 \<rparr>"

definition empty_clip_player :: ServerPlayer where
  "empty_clip_player = (new_ServerPlayer noise42 0 ''A'' ''A'')\<lparr> sp_ammo := 0, sp_totalAmmo := 90 \<rparr>"

definition server_with :: "ServerPlayer \<Rightarrow> server_state" where
  "server_with pl = \<lparr> players = [(sp_id pl, pl)], bullets = [], bulletIdCounter = 0 \<rparr>"

definition empty_clip_client :: client_state where
  "empty_clip_client = started_client\<lparr> g_ammo := 0, g_totalAmmo := 90 \<rparr>"

definition origin :: vec3 where
  "origin = \<lparr> vx = 0, vy = 0, vz = 0 \<rparr>"

definition reloading_client :: client_state where
  "reloading_client = started_client\<lparr> g_ammo := 10, ws_isReloading := True \<rparr>"

definition shotgun_client :: client_state where
  "shotgun_client = started_client\<lparr> ws_currentWeapon := shotgun \<rparr>"

text \<open>
  A server bullet one unit above the ground at \<open>(0, 0)\<close>, where the surface height is 21,
  falling at 10 units per second; and the same bullet after three bounces.
\<close>

definition falling_bullet :: ServerBullet where
  "falling_bullet =
     new_ServerBullet (''A'', 1) \<lparr> vx = 0, vy = 22, vz = 0 \<rparr> \<lparr> vx = 0, vy = - 10, vz = 0 \<rparr>
       BULLET_DAMAGE ''A''"

definition spent_bullet :: ServerBullet where
  "spent_bullet = falling_bullet\<lparr> sb_bounceCount := 3 \<rparr>"

text \<open>
  A client whose first bullet has just been launched straight down from the height \<open>h\<close>
  above the block column \<open>(0, 0)\<close>.
\<close>

definition client_with_bullet_at :: "real \<Rightarrow> client_state" where
  "client_with_bullet_at h =
     Bullet_init 0 \<lparr> vx = 1 / 2, vy = h, vz = 1 / 2 \<rparr> \<lparr> vx = 0, vy = - 1, vz = 0 \<rparr> 40
       (snd (acquireBullet started_client))"

text \<open>
  The bookkeeping of the client's bullets is sound when the pool and the list of active
  bullets hold distinct references of constructed bullets, no pooled bullet is active,
  every active bullet has been constructed, and the list of active bullets is empty as
  long as the weapon system is not initialised.
\<close>

definition bullets_sound :: "client_state \<Rightarrow> bool" where
  "bullets_sound s \<longleftrightarrow>
     distinct (ws_pool_available s @ g_bullets s)
     \<and> list_all (\<lambda>r. r < ws_pool_created s) (ws_pool_available s @ g_bullets s)
     \<and> list_all (\<lambda>r. \<not> b_active (bullet_obj s r)) (ws_pool_available s)
     \<and> (\<forall>r. b_active (bullet_obj s r) \<longrightarrow> r < ws_pool_created s)
     \<and> (ws_init s \<or> g_bullets s = [])"

text \<open>A player of another socket, standing where the falling bullet lands.\<close>

definition target_player :: ServerPlayer where
  "target_player =
     (new_ServerPlayer noise42 0 ''B'' ''B'')\<lparr> sp_position := \<lparr> vx = 0, vy = 21, vz = 0 \<rparr> \<rparr>"

text \<open>The started client with one enemy, whose reference is 0, in the list of enemies.\<close>

definition client_with_enemy :: client_state where
  "client_with_enemy = started_client\<lparr> g_enemies := [0] \<rparr>"

section \<open>The permutation table\<close>

lemma js_rem_nonneg: "0 \<le> a \<Longrightarrow> js_rem a 233280 = a mod 233280"
  by (simp add: js_rem_def)

lemma js_rem_less: "js_rem a 233280 < 233280"
  by (simp add: js_rem_def) (smt (verit) pos_mod_bound pos_mod_sign)

text \<open>The index \<open>j\<close> of a step, in integer arithmetic.\<close>

lemma floor_scale: "\<lfloor>(real_of_int r / 233280) * real_of_int m\<rfloor> = (r * m) div 233280"
proof -
  have "(real_of_int r / 233280) * real_of_int m = real_of_int (r * m) / real_of_int 233280"
    by simp
  then show ?thesis
    by (simp only: floor_divide_of_int_eq)
qed

lemma pick_less:
  fixes r m :: int
  assumes "r < 233280" and "0 < m"
  shows "(r * m) div 233280 < m"
proof -
  from assms have "r * m < 233280 * m" by simp
  then show ?thesis
    by (simp add: div_less_iff_less_mult mult.commute)
qed

lemma pick_range:
  fixes r :: int
  assumes "0 \<le> r" and "r < 233280"
  shows "0 \<le> (r * (int (Suc n) + 1)) div 233280"
    and "nat ((r * (int (Suc n) + 1)) div 233280) \<le> Suc n"
proof -
  show "0 \<le> (r * (int (Suc n) + 1)) div 233280"
    using assms by (simp add: pos_imp_zdiv_nonneg_iff)
  have "(r * (int (Suc n) + 1)) div 233280 < int (Suc n) + 1"
    using assms by (intro pick_less) auto
  then show "nat ((r * (int (Suc n) + 1)) div 233280) \<le> Suc n"
    by linarith
qed

lemma shuffle_step:
  "shuffle (Suc n) rng p =
     shuffle n (js_rem (rng * 9301 + 49297) 233280)
       (p(int (Suc n) := p ((js_rem (rng * 9301 + 49297) 233280 * (int (Suc n) + 1)) div 233280),
          (js_rem (rng * 9301 + 49297) 233280 * (int (Suc n) + 1)) div 233280 := p (int (Suc n))))"
  unfolding shuffle.simps Let_def floor_scale ..

lemma spec_shuffle_step:
  "spec_shuffle (Suc n) rng p =
     spec_shuffle n ((rng * 9301 + 49297) mod 233280)
       (p[Suc n := p ! nat ((((rng * 9301 + 49297) mod 233280) * (int (Suc n) + 1)) div 233280),
          nat ((((rng * 9301 + 49297) mod 233280) * (int (Suc n) + 1)) div 233280) := p ! Suc n])"
proof -
  have "real (Suc n + 1) = real_of_int (int (Suc n) + 1)" by simp
  then show ?thesis
    unfolding spec_shuffle.simps Let_def by (simp only: floor_scale)
qed

text \<open>A step at \<open>i\<close> writes only keys up to \<open>i\<close>: the keys above are never touched again.\<close>

lemma shuffle_frame: "int n < k \<Longrightarrow> shuffle n rng p k = p k"
proof (induction n arbitrary: rng p)
  case 0
  then show ?case by simp
next
  case (Suc n)
  define r where "r = js_rem (rng * 9301 + 49297) 233280"
  define j where "j = (r * (int (Suc n) + 1)) div 233280"
  have "r < 233280" by (simp add: r_def js_rem_less)
  then have "j < int (Suc n) + 1"
    unfolding j_def by (intro pick_less) auto
  with Suc.prems have "k \<noteq> j" "k \<noteq> int (Suc n)" "int n < k" by auto
  then show ?case
    unfolding shuffle_step r_def [symmetric] j_def [symmetric]
    by (simp add: Suc.IH)
qed

lemma length_spec_shuffle: "length (spec_shuffle n rng xs) = length xs"
  by (induction n arbitrary: rng xs) (simp_all add: spec_shuffle_step del: spec_shuffle.simps(2))

text \<open>The shuffle of the specification only swaps entries, whatever the seed.\<close>

lemma mset_spec_shuffle: "n < length xs \<Longrightarrow> mset (spec_shuffle n rng xs) = mset xs"
proof (induction n arbitrary: rng xs)
  case 0
  then show ?case by simp
next
  case (Suc n)
  define r where "r = (rng * 9301 + 49297) mod 233280"
  define j where "j = nat ((r * (int (Suc n) + 1)) div 233280)"
  have "0 \<le> r" "r < 233280" by (simp_all add: r_def)
  then have "j \<le> Suc n" unfolding j_def by (rule pick_range)
  with Suc.prems have "j < length xs" "Suc n < length xs" by simp_all
  then have "mset (xs[Suc n := xs ! j, j := xs ! Suc n]) = mset xs"
    by (rule mset_swap)
  moreover have "mset (spec_shuffle n r (xs[Suc n := xs ! j, j := xs ! Suc n]))
      = mset (xs[Suc n := xs ! j, j := xs ! Suc n])"
    using Suc.prems by (intro Suc.IH) simp
  ultimately show ?case
    unfolding spec_shuffle_step r_def [symmetric] j_def [symmetric] by simp
qed

lemma spec_permutation_is_permutation: "mset (spec_permutation seed) = mset [0..255]"
  unfolding spec_permutation_def by (rule mset_spec_shuffle) simp

lemma represents_swap:
  assumes "represents p xs" and "0 \<le> j" and "j < 256" and "i < 256"
  shows "represents (p(int i := p j, j := p (int i))) (xs[i := xs ! nat j, nat j := xs ! i])"
  using assms unfolding represents_def
  by (auto simp: nth_list_update nat_eq_iff)

text \<open>
  From a seed that is not negative the code runs the shuffle of the specification: the
  remainder never sees a negative dividend, and every \<open>j\<close> is an index of the table.
\<close>

lemma shuffle_refines:
  assumes "0 \<le> rng" and "represents p xs" and "n < 256"
  shows "represents (shuffle n rng p) (spec_shuffle n rng xs)"
  using assms
proof (induction n arbitrary: rng p xs)
  case 0
  then show ?case by simp
next
  case (Suc n)
  define r where "r = (rng * 9301 + 49297) mod 233280"
  define j where "j = (r * (int (Suc n) + 1)) div 233280"
  have r: "0 \<le> r" "r < 233280" by (simp_all add: r_def)
  have jr: "js_rem (rng * 9301 + 49297) 233280 = r"
    using Suc.prems(1) by (simp add: r_def js_rem_nonneg)
  have j: "0 \<le> j" "nat j \<le> Suc n"
    unfolding j_def using r by (rule pick_range)+
  then have "j < 256" using Suc.prems(3) by linarith
  have swapped: "represents (p(int (Suc n) := p j, j := p (int (Suc n))))
          (xs[Suc n := xs ! nat j, nat j := xs ! Suc n])"
    using Suc.prems(2) \<open>0 \<le> j\<close> \<open>j < 256\<close> Suc.prems(3) by (rule represents_swap)
  have "n < 256" using Suc.prems(3) by simp
  with r(1) swapped
  have "represents (shuffle n r (p(int (Suc n) := p j, j := p (int (Suc n)))))
          (spec_shuffle n r (xs[Suc n := xs ! nat j, nat j := xs ! Suc n]))"
    by (rule Suc.IH)
  then show ?case
    unfolding shuffle_step spec_shuffle_step jr r_def [symmetric] j_def [symmetric] .
qed

lemma represents_identity: "represents identity_table [0..255]"
  by (auto simp: represents_def identity_table_def)

lemma represents_map:
  assumes "represents p xs"
  shows "map p [0..255] = map Some xs"
proof (rule nth_equalityI)
  show "length (map p [0..255]) = length (map Some xs)"
    using assms by (simp add: represents_def)
next
  fix i assume "i < length (map p [0..255])"
  then have i: "i < 256" by simp
  then have "[0..255] ! i = int i" by simp
  with i assms show "map p [0..255] ! i = map Some xs ! i"
    by (simp add: represents_def)
qed

text \<open>
  For every seed that is not negative, \<^verbatim>\<open>generatePermutation\<close> returns two copies of the
  table that the shuffle of the specification builds, which is a permutation of 0..255.
  Both sides are computed exactly here, so this compares the two remainders and the two
  kinds of table, not the rounding of doubles.
\<close>

lemma generatePermutation_refines:
  assumes "0 \<le> seed"
  shows "generatePermutation seed = map Some (spec_permutation seed @ spec_permutation seed)"
proof -
  have "represents (shuffle 255 seed identity_table) (spec_permutation seed)"
    unfolding spec_permutation_def using assms represents_identity
    by (rule shuffle_refines) simp
  then show ?thesis
    by (simp add: generatePermutation_def Let_def represents_map)
qed

lemma generatePermutation_last:
  "generatePermutation seed ! 255 = shuffle 255 seed identity_table 255"
proof -
  have "[0..255] ! 255 = (255::int)"
    using nth_upto [of 0 255 255] by simp
  then show ?thesis
    by (simp add: generatePermutation_def Let_def nth_append)
qed

text \<open>
  With seed \<open>- 6\<close> the first step has \<open>rng = - 6509\<close> and \<open>j = - 8\<close>: it stores
  \<^verbatim>\<open>undefined\<close> at key 255 and the number 255 at the property \<open>- 8\<close>.
\<close>

lemma shuffle_255_minus_6: "shuffle 255 (- 6) identity_table 255 = None"
proof -
  have "shuffle 255 (- 6) identity_table = shuffle (Suc 254) (- 6) identity_table"
    by simp
  also have "\<dots> = shuffle 254 (- 6509) (identity_table(255 := None, - 8 := Some 255))"
    unfolding shuffle_step by (simp add: js_rem_def identity_table_def)
  finally show ?thesis
    by (simp add: shuffle_frame)
qed

text \<open>
  C3. The constructor runs the linear congruential shuffle of the specification and its
  table is two copies of a permutation of 0..255 for every seed that is not negative
  (\<open>generatePermutation_refines\<close>, \<open>spec_permutation_is_permutation\<close>), but not for
  every integer seed: with seed \<open>- 6\<close> entry 255 of the table is \<^verbatim>\<open>undefined\<close>, so the
  table is not a list of numbers, and it differs from the table of the specification.
\<close>

theorem generatePermutation_negative_seed:
  "generatePermutation (- 6) ! 255 = None
   \<and> (\<nexists>q. generatePermutation (- 6) = map Some (q @ q))
   \<and> generatePermutation (- 6) \<noteq> map Some (spec_permutation (- 6) @ spec_permutation (- 6))"
proof -
  have last: "generatePermutation (- 6) ! 255 = None"
    by (simp add: generatePermutation_last shuffle_255_minus_6)
  have len: "length (generatePermutation (- 6)) = 512"
    by (simp add: generatePermutation_def Let_def)
  have no: "generatePermutation (- 6) \<noteq> map Some ys" for ys
  proof
    assume eq: "generatePermutation (- 6) = map Some ys"
    with len have "255 < length ys" by simp
    then have "map Some ys ! 255 = Some (ys ! 255)" by simp
    with eq last show False by simp
  qed
  from last no show ?thesis by blast
qed

text \<open>The table of seed 42, computed step by step.\<close>

lemma spec_shuffle_code [code]:
  "spec_shuffle n rng p =
     (if n = 0 then p
      else let r = (rng * 9301 + 49297) mod 233280;
               j = nat ((r * (int n + 1)) div 233280)
           in spec_shuffle (n - 1) r (p[n := p ! j, j := p ! n]))"
proof (cases n)
  case 0
  then show ?thesis by simp
next
  case (Suc m)
  then show ?thesis
    by (simp only: spec_shuffle_step Let_def) simp
qed

lemma spec_permutation_42: "spec_permutation 42 = perm42"
  by code_simp

lemma generatePermutation_42: "generatePermutation 42 = map Some (perm42 @ perm42)"
  using generatePermutation_refines [of 42] by (simp add: spec_permutation_42)

lemma noise42_table: "noise42 = perm42 @ perm42"
  by (simp add: noise42_def generatePermutation_42 comp_def)

lemma noise42_entries:
  "noise42 ! 0 = 94" "noise42 ! Suc 0 = 47" "noise42 ! 94 = 20" "noise42 ! 95 = 214"
  "noise42 ! 47 = 116" "noise42 ! 48 = 143" "noise42 ! 20 = 51" "noise42 ! 116 = 198"
  "noise42 ! 214 = 222" "noise42 ! 143 = 117"
  by (simp_all add: noise42_table perm42_def)

section \<open>Noise at the points the examples use\<close>

lemma grad_origin: "grad h 0 0 0 = 0"
  by (simp add: grad_def Let_def)

lemma lerp_zero: "lerp 0 a b = a"
  by (simp add: lerp_def)

lemma fade_zero: "fade 0 = 0"
  by (simp add: fade_def)

text \<open>At a lattice point every corner contributes with weight 0 or gradient 0.\<close>

lemma noise_lattice: "noise p (of_int a) (of_int b) 0 = 0"
  by (simp add: noise_def Let_def fade_zero lerp_zero grad_origin)

lemma octaveLoop_zero:
  "octaveLoop p 0 0 pers n (0, a, f, m) = (v, a', f', m') \<Longrightarrow> v = 0"
proof (induction n arbitrary: a f m)
  case 0
  then show ?case by simp
next
  case (Suc n)
  have "noise p 0 0 0 = 0" using noise_lattice [of p 0 0] by simp
  with Suc show ?case by simp
qed

lemma octaveNoise_origin: "octaveNoise p 0 0 n pers scale = 0"
  by (auto simp: octaveNoise_def split: prod.splits dest: octaveLoop_zero)

lemma grad_vals:
  "grad 51 x y z = - x - y" "grad 198 x y z = x - z" "grad 222 x y z = y - x"
  "grad 117 x y z = - x + z"
  by (simp_all add: grad_def Let_def)

lemma noise42_half: "noise noise42 (1 / 2) (1 / 2) 0 = - 1 / 2"
proof -
  have fl: "\<lfloor>1 / 2 :: real\<rfloor> = 0" by simp
  show ?thesis
    unfolding noise_def Let_def fl
    by (simp add: noise42_entries grad_vals fade_def lerp_def)
qed

text \<open>
  At \<open>(50, 50)\<close> the first octave samples \<open>(1/2, 1/2)\<close> and the other three sample lattice
  points, so the height noise is \<open>- (1/2) / (1 + 1/2 + 1/4 + 1/8)\<close>.
\<close>

lemma octaveNoise_50_50: "octaveNoise noise42 50 50 4 0.5 0.01 = - 4 / 15"
proof -
  have l: "noise noise42 1 1 0 = 0" "noise noise42 2 2 0 = 0" "noise noise42 4 4 0 = 0"
    using noise_lattice [of noise42 1 1] noise_lattice [of noise42 2 2]
      noise_lattice [of noise42 4 4] by simp_all
  show ?thesis
    by (simp add: octaveNoise_def eval_nat_numeral noise42_half l)
qed

section \<open>Terrain classification and surface height\<close>

text \<open>
  \<^verbatim>\<open>getBlockType\<close> without its recursive call: at \<open>y = baseHeight + 1\<close> the block below is
  the surface block, which is grass unless the sand or the snow rule applies. \<open>B\<close> is
  \<^verbatim>\<open>baseHeight\<close>, \<open>M\<close> and \<open>T\<close> are the moisture and the temperature noise.
\<close>

lemma getBlockType_flat:
  fixes p x z
  defines "B \<equiv> enemy_getTerrainHeight p (of_int x) (of_int z)"
    and "M \<equiv> octaveNoise p (of_int x) (of_int z) 3 0.6 0.02"
    and "T \<equiv> octaveNoise p (of_int x) (of_int z) 2 0.4 0.015"
  shows "getBlockType p rnd k x y z =
     (if y > B + 10 then (AIR, k)
      else if y \<le> 15 \<and> y > B then (WATER, k)
      else if y \<le> 5 then (STONE, k)
      else if y \<le> B then
        (if T > 0.3 \<and> M < - 0.2 \<and> y = B then (SAND, k)
         else if T < - 0.3 \<and> y = B then (SNOW, k)
         else if y = B then (GRASS, k)
         else if y > B - 3 then (DIRT, k)
         else (STONE, k))
      else if y = B + 1 \<and> \<not> (T > 0.3 \<and> M < - 0.2) \<and> \<not> T < - 0.3 then
        (if rnd k < 0.01 \<and> T > - 0.2 then (TREE, Suc k) else (AIR, Suc k))
      else (AIR, k))"
proof -
  have B_eq: "\<lfloor>20 + octaveNoise p (of_int x) (of_int z) 4 0.5 0.01 * 20\<rfloor> = B"
    by (simp add: B_def enemy_getTerrainHeight_def)
  have step: "getBlockType p rnd k x y z =
     (if y > B + 10 then (AIR, k)
      else if y \<le> 15 \<and> y > B then (WATER, k)
      else if y \<le> 5 then (STONE, k)
      else if y \<le> B then
        (if T > 0.3 \<and> M < - 0.2 \<and> y = B then (SAND, k)
         else if T < - 0.3 \<and> y = B then (SNOW, k)
         else if y = B then (GRASS, k)
         else if y > B - 3 then (DIRT, k)
         else (STONE, k))
      else if y = B + 1 then
        (case getBlockType p rnd k x (y - 1) z of
           (below, k1) \<Rightarrow>
             if below = GRASS then
               (if rnd k1 < 0.01 then
                  (if T > - 0.2 then (TREE, Suc k1) else (AIR, Suc k1))
                else (AIR, Suc k1))
             else (AIR, k1))
      else (AIR, k))" for y
    by (subst getBlockType.simps) (simp only: Let_def B_eq M_def [symmetric] T_def [symmetric])
  show ?thesis
  proof (cases "y = B + 1 \<and> 15 < y")
    case True
    then have "getBlockType p rnd k x (y - 1) z =
       (if T > 0.3 \<and> M < - 0.2 then (SAND, k)
        else if T < - 0.3 then (SNOW, k) else (GRASS, k))"
      by (subst step) simp
    with True show ?thesis
      by (subst step) simp
  next
    case False
    then show ?thesis
      by (subst step) auto
  qed
qed

lemma getTerrainHeight_base:
  "getTerrainHeight p x z = enemy_getTerrainHeight p x z + 1"
  by (simp add: getTerrainHeight_def enemy_getTerrainHeight_def)

text \<open>
  C2. \<^verbatim>\<open>getBlockType\<close> calls \<^verbatim>\<open>Math.random()\<close> to place trees, so it is not a function of
  its arguments alone. Call \<open>(x, y, z)\<close> a tree site when \<open>y\<close> is the height just above the
  surface (the value of the closed-form \<^verbatim>\<open>getTerrainHeight\<close>) and above the water level
  15, the surface block below is grass and the temperature noise exceeds \<open>- 0.2\<close>. Two
  calls with the same coordinates return different blocks exactly when the coordinates are
  a tree site and the two draws fall on different sides of 0.01. The result is a tree
  exactly at a tree site with a draw below 0.01, and at a tree site it is air otherwise.
\<close>

theorem getBlockType_deterministic_up_to_tree_draw:
  "(fst (getBlockType p rnd1 k1 x y z) \<noteq> fst (getBlockType p rnd2 k2 x y z) \<longleftrightarrow>
      (y = getTerrainHeight p (of_int x) (of_int z) \<and> 15 < y
       \<and> fst (getBlockType p rnd1 k1 x (y - 1) z) = GRASS
       \<and> octaveNoise p (of_int x) (of_int z) 2 0.4 0.015 > - 0.2)
      \<and> (rnd1 k1 < 0.01) \<noteq> (rnd2 k2 < 0.01))
   \<and> (fst (getBlockType p rnd1 k1 x y z) = TREE \<longleftrightarrow>
      (y = getTerrainHeight p (of_int x) (of_int z) \<and> 15 < y
       \<and> fst (getBlockType p rnd1 k1 x (y - 1) z) = GRASS
       \<and> octaveNoise p (of_int x) (of_int z) 2 0.4 0.015 > - 0.2)
      \<and> rnd1 k1 < 0.01)
   \<and> (y = getTerrainHeight p (of_int x) (of_int z) \<and> 15 < y
       \<and> fst (getBlockType p rnd1 k1 x (y - 1) z) = GRASS
       \<and> octaveNoise p (of_int x) (of_int z) 2 0.4 0.015 > - 0.2 \<longrightarrow>
      fst (getBlockType p rnd1 k1 x y z) = (if rnd1 k1 < 0.01 then TREE else AIR))"
proof -
  define B where "B = enemy_getTerrainHeight p (of_int x) (of_int z)"
  define M where "M = octaveNoise p (of_int x) (of_int z) 3 0.6 0.02"
  define T where "T = octaveNoise p (of_int x) (of_int z) 2 0.4 0.015"
  have H: "getTerrainHeight p (of_int x) (of_int z) = B + 1"
    by (simp add: B_def getTerrainHeight_base)
  note flat0 = getBlockType_flat [of p _ _ x _ z, folded B_def M_def T_def]
  have flat: "fst (getBlockType p rnd k x y z) =
     (if y > B + 10 then AIR
      else if y \<le> 15 \<and> y > B then WATER
      else if y \<le> 5 then STONE
      else if y \<le> B then
        (if T > 0.3 \<and> M < - 0.2 \<and> y = B then SAND
         else if T < - 0.3 \<and> y = B then SNOW
         else if y = B then GRASS
         else if y > B - 3 then DIRT
         else STONE)
      else if y = B + 1 \<and> \<not> (T > 0.3 \<and> M < - 0.2) \<and> \<not> T < - 0.3 then
        (if rnd k < 0.01 \<and> T > - 0.2 then TREE else AIR)
      else AIR)" for rnd k y
    unfolding flat0 by auto
  show ?thesis
    unfolding H T_def [symmetric]
    by (cases "y = B + 1 \<and> 15 < y") (auto simp: flat)
qed

lemma surface_origin: "enemy_getTerrainHeight p 0 0 = 20"
  by (simp add: enemy_getTerrainHeight_def octaveNoise_origin)

lemma getBlockType_origin_21:
  "getBlockType p rnd k 0 21 0 = (if rnd k < 0.01 then (TREE, Suc k) else (AIR, Suc k))"
  using surface_origin [of p] octaveNoise_origin [of p]
  by (simp add: getBlockType_flat)

lemma getBlockType_origin_20: "getBlockType p rnd k 0 20 0 = (GRASS, k)"
  using surface_origin [of p] octaveNoise_origin [of p]
  by (simp add: getBlockType_flat)

theorem getBlockType_deterministic_up_to_tree_draw_witness:
  "getTerrainHeight noise42 0 0 = 21
   \<and> fst (getBlockType noise42 (constant_source (1 / 2)) 0 0 20 0) = GRASS
   \<and> octaveNoise noise42 0 0 2 0.4 0.015 = 0
   \<and> (constant_source (1 / 2) 0 < 0.01 \<longleftrightarrow> constant_source (3 / 4) 0 < 0.01)
   \<and> fst (getBlockType noise42 (constant_source (1 / 2)) 0 0 21 0) = AIR
   \<and> fst (getBlockType noise42 (constant_source (1 / 2)) 0 0 21 0)
       = fst (getBlockType noise42 (constant_source (3 / 4)) 0 0 21 0)"
proof -
  have h: "getTerrainHeight noise42 0 0 = 21"
    by (simp add: getTerrainHeight_base surface_origin)
  have g: "fst (getBlockType noise42 (constant_source (1 / 2)) 0 0 20 0) = GRASS"
    by (simp add: getBlockType_origin_20)
  have t: "octaveNoise noise42 0 0 2 0.4 0.015 = 0"
    by (rule octaveNoise_origin)
  have d: "\<not> constant_source (1 / 2) 0 < 0.01" "\<not> constant_source (3 / 4) 0 < 0.01"
    by (simp_all add: constant_source_def)
  note T = getBlockType_deterministic_up_to_tree_draw
    [of noise42 "constant_source (1 / 2)" 0 0 21 0 "constant_source (3 / 4)" 0]
  have a: "fst (getBlockType noise42 (constant_source (1 / 2)) 0 0 21 0) = AIR"
    using T h g t d by (auto simp: octaveNoise_origin)
  have e: "fst (getBlockType noise42 (constant_source (1 / 2)) 0 0 21 0)
       = fst (getBlockType noise42 (constant_source (3 / 4)) 0 0 21 0)"
    using T d by auto
  from h g t d a e show ?thesis by simp
qed

text \<open>
  The claim as stated fails: at \<open>(0, 21, 0)\<close>, just above the grass surface of height 20, a
  call whose draw is 0 returns a tree and a call whose draw is 1/2 returns air.
\<close>

theorem getBlockType_not_deterministic:
  "fst (getBlockType noise42 (constant_source 0) 0 0 21 0) = TREE
   \<and> fst (getBlockType noise42 (constant_source (1 / 2)) 0 0 21 0) = AIR"
  by (simp add: constant_source_def getBlockType_origin_21)

text \<open>Rows of air that draw no random number are skipped by the scan.\<close>

lemma scanDown_air_above:
  assumes "\<And>y'. t < y' \<Longrightarrow> y' \<le> y \<Longrightarrow> getBlockType p rnd k \<lfloor>x\<rfloor> y' \<lfloor>z\<rfloor> = (AIR, k)"
    and "t \<le> y" and "- 1 \<le> t"
  shows "scanDown p rnd k x z y = scanDown p rnd k x z t"
  using assms
proof (induction "nat (y - t)" arbitrary: y)
  case 0
  then show ?case by simp
next
  case (Suc n)
  then have "t < y" "0 \<le> y" by auto
  then have row: "getBlockType p rnd k \<lfloor>x\<rfloor> y \<lfloor>z\<rfloor> = (AIR, k)"
    using Suc.prems(1) by simp
  have "scanDown p rnd k x z (y - 1) = scanDown p rnd k x z t"
    using Suc by (intro Suc.hyps(1)) auto
  with row \<open>0 \<le> y\<close> show ?case
    by (subst scanDown.simps) simp
qed

text \<open>
  Where the base height is between 5 and 14 the column is filled with water up to
  \<open>y = 15\<close>, and the scan stops at the water: it returns 16 whatever the base height.
\<close>

lemma scan_under_water:
  assumes "5 \<le> enemy_getTerrainHeight p (of_int \<lfloor>x\<rfloor>) (of_int \<lfloor>z\<rfloor>)"
    and "enemy_getTerrainHeight p (of_int \<lfloor>x\<rfloor>) (of_int \<lfloor>z\<rfloor>) < 15"
  shows "player_getTerrainHeight p rnd k x z = (16, k)"
proof -
  have "scanDown p rnd k x z 63 = scanDown p rnd k x z 15"
    using assms by (intro scanDown_air_above) (auto simp: getBlockType_flat)
  also have "\<dots> = (16, k)"
    using assms by (subst scanDown.simps) (simp add: getBlockType_flat)
  finally show ?thesis
    by (simp add: player_getTerrainHeight_def WORLD_HEIGHT_def)
qed

text \<open>
  Where the base height is between 15 and 62 the scan returns the closed form, unless a
  tree stands on the surface, which raises the scanned height by one.
\<close>

lemma scan_on_land:
  assumes "15 \<le> enemy_getTerrainHeight p (of_int \<lfloor>x\<rfloor>) (of_int \<lfloor>z\<rfloor>)"
    and "enemy_getTerrainHeight p (of_int \<lfloor>x\<rfloor>) (of_int \<lfloor>z\<rfloor>) \<le> 62"
  shows "fst (player_getTerrainHeight p rnd k x z) =
     (if fst (getBlockType p rnd k \<lfloor>x\<rfloor> (getTerrainHeight p (of_int \<lfloor>x\<rfloor>) (of_int \<lfloor>z\<rfloor>)) \<lfloor>z\<rfloor>) = TREE
      then getTerrainHeight p (of_int \<lfloor>x\<rfloor>) (of_int \<lfloor>z\<rfloor>) + 1
      else getTerrainHeight p (of_int \<lfloor>x\<rfloor>) (of_int \<lfloor>z\<rfloor>))"
proof -
  define B where "B = enemy_getTerrainHeight p (of_int \<lfloor>x\<rfloor>) (of_int \<lfloor>z\<rfloor>)"
  have H: "getTerrainHeight p (of_int \<lfloor>x\<rfloor>) (of_int \<lfloor>z\<rfloor>) = B + 1"
    by (simp add: B_def getTerrainHeight_base)
  have B: "15 \<le> B" "B \<le> 62" using assms by (simp_all add: B_def)
  have top: "scanDown p rnd k x z 63 = scanDown p rnd k x z (B + 1)"
    using B by (intro scanDown_air_above) (auto simp: getBlockType_flat B_def [symmetric])
  obtain b k1 where row: "getBlockType p rnd k \<lfloor>x\<rfloor> (B + 1) \<lfloor>z\<rfloor> = (b, k1)"
    by (cases "getBlockType p rnd k \<lfloor>x\<rfloor> (B + 1) \<lfloor>z\<rfloor>")
  have b: "b = TREE \<or> b = AIR"
    using row B by (auto simp: getBlockType_flat B_def [symmetric] split: if_splits)
  have below: "fst (getBlockType p rnd k1 \<lfloor>x\<rfloor> B \<lfloor>z\<rfloor>) \<noteq> AIR"
    using B by (simp add: getBlockType_flat B_def [symmetric])
  have "fst (scanDown p rnd k x z (B + 1)) = (if b = TREE then B + 2 else B + 1)"
  proof (cases "b = TREE")
    case True
    with row B show ?thesis by (subst scanDown.simps) simp
  next
    case False
    with b have "b = AIR" by simp
    have "fst (scanDown p rnd k1 x z B) = B + 1"
      using below B by (subst scanDown.simps) (auto split: prod.splits)
    with row B \<open>b = AIR\<close> show ?thesis
      by (subst scanDown.simps) simp
  qed
  with top row show ?thesis
    by (simp add: player_getTerrainHeight_def WORLD_HEIGHT_def H)
qed

lemma height_50_50: "enemy_getTerrainHeight noise42 50 50 = 14"
  unfolding enemy_getTerrainHeight_def Let_def octaveNoise_50_50 by simp

text \<open>
  C1. The two height functions disagree. At \<open>(50, 50)\<close> the height noise of the seed-42
  generator is \<open>- 4/15\<close>, the base height is 14 and the column holds water at \<open>y = 15\<close>: the
  closed form of the server returns 15 while the scan of the client, which stops at the
  first block that is not air, returns 16. (The samples of this point are 1/2, 1, 2 and 4,
  which doubles hold exactly, and \<open>20 - 16/3\<close> is far from an integer.)
\<close>

theorem terrain_heights_differ_under_water:
  "getTerrainHeight noise42 50 50 = 15
   \<and> player_getTerrainHeight noise42 rnd k 50 50 = (16, k)"
proof
  show "getTerrainHeight noise42 50 50 = 15"
    by (simp add: getTerrainHeight_base height_50_50)
  show "player_getTerrainHeight noise42 rnd k 50 50 = (16, k)"
    by (rule scan_under_water) (simp_all add: height_50_50)
qed

text \<open>
  A tree makes them disagree on land too: at \<open>(0, 0)\<close> the closed form returns 21 and the
  scan returns 22 when the draw at \<open>y = 21\<close> places a tree.
\<close>

lemma terrain_heights_differ_at_tree:
  "getTerrainHeight noise42 0 0 = 21
   \<and> fst (player_getTerrainHeight noise42 (constant_source 0) 0 0 0) = 22"
proof
  show h: "getTerrainHeight noise42 0 0 = 21"
    by (simp add: getTerrainHeight_base surface_origin)
  have "fst (player_getTerrainHeight noise42 (constant_source 0) 0 0 0) =
     (if fst (getBlockType noise42 (constant_source 0) 0 \<lfloor>0::real\<rfloor>
                (getTerrainHeight noise42 (of_int \<lfloor>0::real\<rfloor>) (of_int \<lfloor>0::real\<rfloor>)) \<lfloor>0::real\<rfloor>) = TREE
      then getTerrainHeight noise42 (of_int \<lfloor>0::real\<rfloor>) (of_int \<lfloor>0::real\<rfloor>) + 1
      else getTerrainHeight noise42 (of_int \<lfloor>0::real\<rfloor>) (of_int \<lfloor>0::real\<rfloor>))"
    by (rule scan_on_land) (simp_all add: surface_origin)
  then show "fst (player_getTerrainHeight noise42 (constant_source 0) 0 0 0) = 22"
    by (simp add: h getBlockType_origin_21 constant_source_def)
qed

section \<open>Damage\<close>

lemma Map_get_set_same: "Map_get (Map_set k v m) k = Some v"
  by (induction m) (auto simp: Map_get_def)

lemma takeDamage_health:
  "sp_health (fst (ServerPlayer_takeDamage pl damage)) = max 0 (sp_health pl - damage)"
  by (simp add: ServerPlayer_takeDamage_def Let_def)

lemma takeDamage_alive:
  "sp_isAlive (fst (ServerPlayer_takeDamage pl damage)) = (sp_isAlive pl \<and> damage < sp_health pl)"
  by (auto simp: ServerPlayer_takeDamage_def Let_def)

lemma takeDamage_returns:
  "snd (ServerPlayer_takeDamage pl damage) = (\<not> sp_isAlive (fst (ServerPlayer_takeDamage pl damage)))"
  by (simp add: ServerPlayer_takeDamage_def Let_def)

lemma takeDamage_dead:
  "\<not> sp_isAlive pl \<Longrightarrow> sp_health pl = 0 \<Longrightarrow> 0 < damage \<Longrightarrow> ServerPlayer_takeDamage pl damage = (pl, True)"
  by (simp add: ServerPlayer_takeDamage_def Let_def)

lemma Enemy_takeDamage_health:
  "enemy_init s \<Longrightarrow> e_health (enemy_obj (fst (Enemy_takeDamage this d s)) this) = e_health (enemy_obj s this) - d"
  by (simp add: Enemy_takeDamage_def Enemy_destroy_def Let_def)

lemma Enemy_takeDamage_returns:
  "enemy_init s \<Longrightarrow> snd (Enemy_takeDamage this d s) = (e_health (enemy_obj s this) \<le> d)"
  by (simp add: Enemy_takeDamage_def Let_def)

lemma takeDamage_state:
  "fst (ServerPlayer_takeDamage pl damage) =
     pl\<lparr> sp_health := max 0 (sp_health pl - damage),
         sp_isAlive := (sp_isAlive pl \<and> damage < sp_health pl) \<rparr>"
  by (auto simp: ServerPlayer_takeDamage_def Let_def max_def)

lemma Enemy_takeDamage_survives:
  assumes "enemy_init s" and "damage < e_health (enemy_obj s this)"
  shows "Enemy_takeDamage this damage s =
     (s\<lparr> enemy_obj := (enemy_obj s)
           (this := (enemy_obj s this)\<lparr> e_health := e_health (enemy_obj s this) - damage \<rparr>) \<rparr>,
      False)"
  using assms by (simp add: Enemy_takeDamage_def Let_def)

lemma Enemy_takeDamage_dies:
  assumes "enemy_init s" and "e_health (enemy_obj s this) \<le> damage"
  shows "Enemy_takeDamage this damage s =
     (s\<lparr> g_enemies := remove1 this (g_enemies s),
         enemy_obj := (enemy_obj s)
           (this := (enemy_obj s this)\<lparr> e_health := e_health (enemy_obj s this) - damage,
                                        e_mesh := None \<rparr>),
         g_score := g_score s + 100 \<rparr>,
      True)"
  using assms by (simp add: Enemy_takeDamage_def Enemy_destroy_def Let_def)

lemma Enemy_takeDamage_uninitialised:
  "\<not> enemy_init s \<Longrightarrow> Enemy_takeDamage this damage s = (s, False)"
  by (simp add: Enemy_takeDamage_def)

text \<open>
  C4. For a positive amount, \<^verbatim>\<open>ServerPlayer.takeDamage\<close> subtracts the amount from the
  health, clamps the health at 0, clears \<^verbatim>\<open>isAlive\<close> when the health reaches 0, changes
  nothing else, and returns whether the player is dead after the call: for a living
  player with positive health that is true exactly when the health reached 0. On a player
  who is already dead the health stays 0 and the call returns true again.
  \<^verbatim>\<open>Enemy.takeDamage\<close>, once the enemy module is initialised, subtracts the amount without
  clamping. When the health is then at most 0 it destroys the enemy (the mesh is cleared
  and the enemy leaves the list of enemies), adds 100 to the score and returns true;
  otherwise it changes nothing else and returns false. Before the module is initialised
  it changes nothing and returns false.
\<close>

theorem takeDamage_effect:
  assumes "0 < damage"
  shows "sp_health (fst (ServerPlayer_takeDamage pl damage)) = max 0 (sp_health pl - damage)
    \<and> sp_isAlive (fst (ServerPlayer_takeDamage pl damage)) = (sp_isAlive pl \<and> damage < sp_health pl)
    \<and> fst (ServerPlayer_takeDamage pl damage) =
         pl\<lparr> sp_health := max 0 (sp_health pl - damage),
             sp_isAlive := (sp_isAlive pl \<and> damage < sp_health pl) \<rparr>
    \<and> snd (ServerPlayer_takeDamage pl damage) = (\<not> sp_isAlive (fst (ServerPlayer_takeDamage pl damage)))
    \<and> (sp_isAlive pl \<and> 0 < sp_health pl \<longrightarrow>
         snd (ServerPlayer_takeDamage pl damage) = (sp_health pl \<le> damage))
    \<and> (\<not> sp_isAlive pl \<and> sp_health pl = 0 \<longrightarrow> ServerPlayer_takeDamage pl damage = (pl, True))
    \<and> (enemy_init s \<longrightarrow>
         e_health (enemy_obj (fst (Enemy_takeDamage this damage s)) this)
           = e_health (enemy_obj s this) - damage
         \<and> snd (Enemy_takeDamage this damage s) = (e_health (enemy_obj s this) \<le> damage))
    \<and> (enemy_init s \<and> e_health (enemy_obj s this) \<le> damage \<longrightarrow>
         Enemy_takeDamage this damage s =
           (s\<lparr> g_enemies := remove1 this (g_enemies s),
               enemy_obj := (enemy_obj s)
                 (this := (enemy_obj s this)\<lparr> e_health := e_health (enemy_obj s this) - damage,
                                              e_mesh := None \<rparr>),
               g_score := g_score s + 100 \<rparr>,
            True))
    \<and> (enemy_init s \<and> damage < e_health (enemy_obj s this) \<longrightarrow>
         Enemy_takeDamage this damage s =
           (s\<lparr> enemy_obj := (enemy_obj s)
                 (this := (enemy_obj s this)\<lparr> e_health := e_health (enemy_obj s this) - damage \<rparr>) \<rparr>,
            False))
    \<and> (\<not> enemy_init s \<longrightarrow> Enemy_takeDamage this damage s = (s, False))"
proof -
  have c5: "sp_isAlive pl \<and> 0 < sp_health pl \<longrightarrow>
         snd (ServerPlayer_takeDamage pl damage) = (sp_health pl \<le> damage)"
    by (auto simp: takeDamage_returns takeDamage_alive)
  have c6: "\<not> sp_isAlive pl \<and> sp_health pl = 0 \<longrightarrow> ServerPlayer_takeDamage pl damage = (pl, True)"
    using assms takeDamage_dead [of pl damage] by blast
  have c7: "enemy_init s \<longrightarrow>
         e_health (enemy_obj (fst (Enemy_takeDamage this damage s)) this)
           = e_health (enemy_obj s this) - damage
         \<and> snd (Enemy_takeDamage this damage s) = (e_health (enemy_obj s this) \<le> damage)"
    by (simp add: Enemy_takeDamage_health Enemy_takeDamage_returns)
  have c8: "enemy_init s \<and> e_health (enemy_obj s this) \<le> damage \<longrightarrow>
         Enemy_takeDamage this damage s =
           (s\<lparr> g_enemies := remove1 this (g_enemies s),
               enemy_obj := (enemy_obj s)
                 (this := (enemy_obj s this)\<lparr> e_health := e_health (enemy_obj s this) - damage,
                                              e_mesh := None \<rparr>),
               g_score := g_score s + 100 \<rparr>,
            True)"
    using Enemy_takeDamage_dies [of s this damage] by blast
  have c9: "enemy_init s \<and> damage < e_health (enemy_obj s this) \<longrightarrow>
         Enemy_takeDamage this damage s =
           (s\<lparr> enemy_obj := (enemy_obj s)
                 (this := (enemy_obj s this)\<lparr> e_health := e_health (enemy_obj s this) - damage \<rparr>) \<rparr>,
            False)"
    using Enemy_takeDamage_survives [of s damage this] by blast
  have c10: "\<not> enemy_init s \<longrightarrow> Enemy_takeDamage this damage s = (s, False)"
    using Enemy_takeDamage_uninitialised [of s this damage] by blast
  show ?thesis
    by (intro conjI takeDamage_health takeDamage_alive takeDamage_state takeDamage_returns
        c5 c6 c7 c8 c9 c10)
qed

theorem takeDamage_effect_witness:
  "(0::real) < 25
   \<and> sp_health (fst (ServerPlayer_takeDamage wounded_player 25)) = 0
   \<and> \<not> sp_isAlive (fst (ServerPlayer_takeDamage wounded_player 25))
   \<and> snd (ServerPlayer_takeDamage wounded_player 25)
   \<and> enemy_init client_with_enemy
   \<and> e_health (enemy_obj client_with_enemy 0) = 50
   \<and> g_enemies client_with_enemy = [0]
   \<and> e_health (enemy_obj (fst (Enemy_takeDamage 0 25 client_with_enemy)) 0) = 25
   \<and> g_enemies (fst (Enemy_takeDamage 0 25 client_with_enemy)) = [0]
   \<and> g_score (fst (Enemy_takeDamage 0 25 client_with_enemy)) = 0
   \<and> \<not> snd (Enemy_takeDamage 0 25 client_with_enemy)
   \<and> (0::real) < 80
   \<and> snd (Enemy_takeDamage 0 80 client_with_enemy)
   \<and> e_mesh (enemy_obj (fst (Enemy_takeDamage 0 80 client_with_enemy)) 0) = None
   \<and> g_enemies (fst (Enemy_takeDamage 0 80 client_with_enemy)) = []
   \<and> g_score (fst (Enemy_takeDamage 0 80 client_with_enemy)) = 100"
proof -
  have w: "sp_health wounded_player = 10" "sp_isAlive wounded_player"
    by (simp_all add: wounded_player_def new_ServerPlayer_def)
  have e: "enemy_init client_with_enemy" "e_health (enemy_obj client_with_enemy 0) = 50"
    "g_enemies client_with_enemy = [0]" "g_score client_with_enemy = 0"
    by (simp_all add: client_with_enemy_def started_client_def initial_client_def new_Enemy_def)
  show ?thesis
    using takeDamage_effect [of 25 wounded_player client_with_enemy 0]
      takeDamage_effect [of 80 wounded_player client_with_enemy 0] w e
    by simp
qed

text \<open>
  The claim as stated fails on its own example: a player with 10 health points dies of 25
  damage, and the next call with 5 damage returns true, not false. An enemy with 50 health
  points that takes 80 damage is left with \<open>- 30\<close>, not 0.
\<close>

theorem takeDamage_on_dead_returns_true:
  "sp_health (fst (ServerPlayer_takeDamage wounded_player 25)) = 0
   \<and> snd (ServerPlayer_takeDamage (fst (ServerPlayer_takeDamage wounded_player 25)) 5) = True
   \<and> e_health (enemy_obj (fst (Enemy_takeDamage 0 80 started_client)) 0) = - 30"
  by (simp add: ServerPlayer_takeDamage_def Enemy_takeDamage_def Enemy_destroy_def Let_def
      wounded_player_def new_ServerPlayer_def started_client_def initial_client_def new_Enemy_def)

section \<open>Reloading\<close>

lemma player_reload_accepted:
  assumes "Map_get (players s) sid = Some pl" and "sp_ammo pl < AMMO_CAPACITY"
    and "0 < sp_totalAmmo pl"
  shows "Map_get (players (fst (player_reload s sid))) sid =
     Some (pl\<lparr> sp_ammo := sp_ammo pl + min (AMMO_CAPACITY - sp_ammo pl) (sp_totalAmmo pl),
               sp_totalAmmo := sp_totalAmmo pl - min (AMMO_CAPACITY - sp_ammo pl) (sp_totalAmmo pl) \<rparr>)"
  using assms by (simp add: player_reload_def Let_def Map_get_set_same)

lemma player_reload_rejected:
  assumes "Map_get (players s) sid = Some pl"
    and "sp_ammo pl \<ge> AMMO_CAPACITY \<or> sp_totalAmmo pl \<le> 0"
  shows "player_reload s sid = (s, [])"
  using assms by (auto simp: player_reload_def)

lemma reload_rejected:
  "g_ammo c = AMMO_CAPACITY \<or> g_totalAmmo c \<le> 0 \<Longrightarrow> reload c = (c, None)"
  by (auto simp: reload_def)

lemma reload_started:
  "snd (reload c) \<noteq> None \<Longrightarrow>
     fst (reload c) = c\<lparr> ws_isReloading := True \<rparr>"
  by (auto simp: reload_def Let_def split: if_splits)

text \<open>
  C6. A reload that takes effect moves \<open>min (AMMO_CAPACITY - ammo) totalAmmo\<close> rounds
  from the reserve to the clip, on the server at once and in the client when the timer
  that \<^verbatim>\<open>reload()\<close> has set runs out (\<^verbatim>\<open>reload()\<close> itself only sets
  \<^verbatim>\<open>isReloading\<close>). A reload with a full clip or an empty reserve is rejected and
  changes nothing. From 0 rounds in the clip and 90 in the reserve it gives 30 and 60.
\<close>

theorem reload_transfers_deficit:
  "(Map_get (players s) sid = Some pl \<and> sp_ammo pl < AMMO_CAPACITY \<and> 0 < sp_totalAmmo pl \<longrightarrow>
      Map_get (players (fst (player_reload s sid))) sid =
        Some (pl\<lparr> sp_ammo := sp_ammo pl + min (AMMO_CAPACITY - sp_ammo pl) (sp_totalAmmo pl),
                  sp_totalAmmo :=
                    sp_totalAmmo pl - min (AMMO_CAPACITY - sp_ammo pl) (sp_totalAmmo pl) \<rparr>))
   \<and> (Map_get (players s) sid = Some pl
        \<and> (sp_ammo pl = AMMO_CAPACITY \<or> sp_totalAmmo pl \<le> 0) \<longrightarrow>
      player_reload s sid = (s, []))
   \<and> (Map_get (players s) sid = Some pl \<and> sp_ammo pl = 0 \<and> sp_totalAmmo pl = 90 \<longrightarrow>
      Map_get (players (fst (player_reload s sid))) sid =
        Some (pl\<lparr> sp_ammo := 30, sp_totalAmmo := 60 \<rparr>))
   \<and> reload_timeout c =
        c\<lparr> g_ammo := g_ammo c + min (AMMO_CAPACITY - g_ammo c) (g_totalAmmo c),
           g_totalAmmo := g_totalAmmo c - min (AMMO_CAPACITY - g_ammo c) (g_totalAmmo c),
           ws_isReloading := False \<rparr>
   \<and> (snd (reload c) \<noteq> None \<longrightarrow> fst (reload c) = c\<lparr> ws_isReloading := True \<rparr>)
   \<and> (g_ammo c = AMMO_CAPACITY \<or> g_totalAmmo c \<le> 0 \<longrightarrow> reload c = (c, None))
   \<and> (g_ammo c = 0 \<and> g_totalAmmo c = 90 \<longrightarrow>
      g_ammo (reload_timeout c) = 30 \<and> g_totalAmmo (reload_timeout c) = 60)"
proof -
  have c1: "Map_get (players s) sid = Some pl \<and> sp_ammo pl < AMMO_CAPACITY \<and> 0 < sp_totalAmmo pl \<longrightarrow>
      Map_get (players (fst (player_reload s sid))) sid =
        Some (pl\<lparr> sp_ammo := sp_ammo pl + min (AMMO_CAPACITY - sp_ammo pl) (sp_totalAmmo pl),
                  sp_totalAmmo :=
                    sp_totalAmmo pl - min (AMMO_CAPACITY - sp_ammo pl) (sp_totalAmmo pl) \<rparr>)"
    using player_reload_accepted [of s sid pl] by blast
  have c2: "Map_get (players s) sid = Some pl
        \<and> (sp_ammo pl = AMMO_CAPACITY \<or> sp_totalAmmo pl \<le> 0) \<longrightarrow>
      player_reload s sid = (s, [])"
    using player_reload_rejected [of s sid pl] by auto
  have c3: "Map_get (players s) sid = Some pl \<and> sp_ammo pl = 0 \<and> sp_totalAmmo pl = 90 \<longrightarrow>
      Map_get (players (fst (player_reload s sid))) sid =
        Some (pl\<lparr> sp_ammo := 30, sp_totalAmmo := 60 \<rparr>)"
    using player_reload_accepted [of s sid pl] by (auto simp: AMMO_CAPACITY_def)
  have c4: "reload_timeout c =
        c\<lparr> g_ammo := g_ammo c + min (AMMO_CAPACITY - g_ammo c) (g_totalAmmo c),
           g_totalAmmo := g_totalAmmo c - min (AMMO_CAPACITY - g_ammo c) (g_totalAmmo c),
           ws_isReloading := False \<rparr>"
    by (simp add: reload_timeout_def Let_def)
  have c5: "snd (reload c) \<noteq> None \<longrightarrow> fst (reload c) = c\<lparr> ws_isReloading := True \<rparr>"
    using reload_started [of c] by blast
  have c6: "g_ammo c = AMMO_CAPACITY \<or> g_totalAmmo c \<le> 0 \<longrightarrow> reload c = (c, None)"
    using reload_rejected [of c] by blast
  have c7: "g_ammo c = 0 \<and> g_totalAmmo c = 90 \<longrightarrow>
      g_ammo (reload_timeout c) = 30 \<and> g_totalAmmo (reload_timeout c) = 60"
    by (simp add: reload_timeout_def Let_def AMMO_CAPACITY_def)
  show ?thesis
    by (intro conjI c1 c2 c3 c4 c5 c6 c7)
qed

theorem reload_transfers_deficit_witness:
  "Map_get (players (server_with empty_clip_player)) ''A'' = Some empty_clip_player
   \<and> sp_ammo empty_clip_player = 0 \<and> sp_totalAmmo empty_clip_player = 90
   \<and> Map_get (players (fst (player_reload (server_with empty_clip_player) ''A''))) ''A'' =
        Some (empty_clip_player\<lparr> sp_ammo := 30, sp_totalAmmo := 60 \<rparr>)
   \<and> g_ammo empty_clip_client = 0 \<and> g_totalAmmo empty_clip_client = 90
   \<and> snd (reload empty_clip_client) = Some 2000
   \<and> fst (reload empty_clip_client) = empty_clip_client\<lparr> ws_isReloading := True \<rparr>
   \<and> g_ammo (reload_timeout empty_clip_client) = 30
   \<and> g_totalAmmo (reload_timeout empty_clip_client) = 60"
proof -
  note T = reload_transfers_deficit
    [of "server_with empty_clip_player" "''A''" empty_clip_player empty_clip_client]
  have p: "Map_get (players (server_with empty_clip_player)) ''A'' = Some empty_clip_player
      \<and> sp_ammo empty_clip_player = 0 \<and> sp_totalAmmo empty_clip_player = 90"
    by (simp add: server_with_def empty_clip_player_def new_ServerPlayer_def Map_get_def)
  with T have srv:
    "Map_get (players (fst (player_reload (server_with empty_clip_player) ''A''))) ''A'' =
        Some (empty_clip_player\<lparr> sp_ammo := 30, sp_totalAmmo := 60 \<rparr>)"
    by blast
  have g: "g_ammo empty_clip_client = 0 \<and> g_totalAmmo empty_clip_client = 90"
    by (simp add: empty_clip_client_def)
  with T have cl: "g_ammo (reload_timeout empty_clip_client) = 30
      \<and> g_totalAmmo (reload_timeout empty_clip_client) = 60"
    by blast
  have r: "snd (reload empty_clip_client) = Some 2000"
    by (simp add: reload_def empty_clip_client_def started_client_def initial_client_def
        AMMO_CAPACITY_def Let_def)
  with T have st: "fst (reload empty_clip_client) = empty_clip_client\<lparr> ws_isReloading := True \<rparr>"
    by simp
  from p srv g cl r st show ?thesis by blast
qed

text \<open>
  C9. From a state with \<open>0 \<le> ammo \<le> AMMO_CAPACITY\<close> and \<open>0 \<le> totalAmmo\<close> a reload leaves
  \<open>ammo + totalAmmo\<close> unchanged, the clip at most full and the reserve not negative, on
  the server and in the client.
\<close>

theorem reload_conserves_ammo:
  "(Map_get (players s) sid = Some pl
      \<and> 0 \<le> sp_ammo pl \<and> sp_ammo pl \<le> AMMO_CAPACITY \<and> 0 \<le> sp_totalAmmo pl \<longrightarrow>
      (\<exists>pl'. Map_get (players (fst (player_reload s sid))) sid = Some pl'
         \<and> sp_ammo pl' + sp_totalAmmo pl' = sp_ammo pl + sp_totalAmmo pl
         \<and> sp_ammo pl' \<le> AMMO_CAPACITY \<and> 0 \<le> sp_totalAmmo pl'))
   \<and> (0 \<le> g_ammo c \<and> g_ammo c \<le> AMMO_CAPACITY \<and> 0 \<le> g_totalAmmo c \<longrightarrow>
        g_ammo (reload_timeout c) + g_totalAmmo (reload_timeout c) = g_ammo c + g_totalAmmo c
        \<and> g_ammo (reload_timeout c) \<le> AMMO_CAPACITY \<and> 0 \<le> g_totalAmmo (reload_timeout c))"
proof (intro conjI impI)
  assume a: "Map_get (players s) sid = Some pl
      \<and> 0 \<le> sp_ammo pl \<and> sp_ammo pl \<le> AMMO_CAPACITY \<and> 0 \<le> sp_totalAmmo pl"
  show "\<exists>pl'. Map_get (players (fst (player_reload s sid))) sid = Some pl'
         \<and> sp_ammo pl' + sp_totalAmmo pl' = sp_ammo pl + sp_totalAmmo pl
         \<and> sp_ammo pl' \<le> AMMO_CAPACITY \<and> 0 \<le> sp_totalAmmo pl'"
  proof (cases "sp_ammo pl \<ge> AMMO_CAPACITY \<or> sp_totalAmmo pl \<le> 0")
    case True
    with a have "player_reload s sid = (s, [])"
      by (intro player_reload_rejected) auto
    with a show ?thesis by auto
  next
    case False
    with a show ?thesis
      using player_reload_accepted [of s sid pl] by auto
  qed
qed (simp_all add: reload_timeout_def Let_def)

theorem reload_conserves_ammo_witness:
  "Map_get (players (server_with empty_clip_player)) ''A'' = Some empty_clip_player
   \<and> sp_ammo empty_clip_player = 0 \<and> sp_totalAmmo empty_clip_player = 90
   \<and> (\<exists>pl'. Map_get (players (fst (player_reload (server_with empty_clip_player) ''A''))) ''A''
              = Some pl'
         \<and> sp_ammo pl' + sp_totalAmmo pl' = 90 \<and> sp_ammo pl' \<le> 30 \<and> 0 \<le> sp_totalAmmo pl')
   \<and> g_ammo empty_clip_client = 0 \<and> g_totalAmmo empty_clip_client = 90
   \<and> g_ammo (reload_timeout empty_clip_client) + g_totalAmmo (reload_timeout empty_clip_client)
       = 90
   \<and> g_ammo (reload_timeout empty_clip_client) \<le> 30
   \<and> 0 \<le> g_totalAmmo (reload_timeout empty_clip_client)"
proof -
  have p: "Map_get (players (server_with empty_clip_player)) ''A'' = Some empty_clip_player"
    "sp_ammo empty_clip_player = 0" "sp_totalAmmo empty_clip_player = 90"
    by (simp_all add: server_with_def empty_clip_player_def new_ServerPlayer_def Map_get_def)
  have g: "g_ammo empty_clip_client = 0" "g_totalAmmo empty_clip_client = 90"
    by (simp_all add: empty_clip_client_def)
  show ?thesis
    using reload_conserves_ammo [of "server_with empty_clip_player" "''A''" empty_clip_player
        empty_clip_client] p g
    by (simp add: AMMO_CAPACITY_def)
qed


section \<open>Firing\<close>

lemma player_shoot_accepted_iff:
  "snd (player_shoot s sid now pos vel) \<noteq> [] \<longleftrightarrow>
     (\<exists>pl. Map_get (players s) sid = Some pl \<and> sp_isAlive pl \<and> 0 < sp_ammo pl
        \<and> now - sp_lastShot pl \<ge> 150)"
  by (auto simp: player_shoot_def Let_def split: option.splits)

lemma player_shoot_rejected:
  "snd (player_shoot s sid now pos vel) = [] \<Longrightarrow> fst (player_shoot s sid now pos vel) = s"
  by (auto simp: player_shoot_def Let_def split: option.splits if_splits)

lemma player_shoot_accepted_ammo:
  assumes "snd (player_shoot s sid now pos vel) \<noteq> []"
  shows "\<exists>pl. Map_get (players s) sid = Some pl
    \<and> Map_get (players (fst (player_shoot s sid now pos vel))) sid
        = Some (pl\<lparr> sp_lastShot := now, sp_ammo := sp_ammo pl - 1 \<rparr>)"
  using assms
  by (auto simp: player_shoot_def Let_def Map_get_set_same split: option.splits if_splits)

lemma fireWeapon_accepted_iff:
  "snd (fireWeapon rnd now wp dir c) \<longleftrightarrow> canShoot c now"
  by (auto simp: fireWeapon_def canShoot_def Let_def)

lemma fireWeapon_rejected:
  "\<not> snd (fireWeapon rnd now wp dir c) \<Longrightarrow> fst (fireWeapon rnd now wp dir c) = c"
  by (auto simp: fireWeapon_def Let_def split: if_splits)

lemma player_shoot_accepted_state:
  assumes "Map_get (players s) sid = Some pl" and "snd (player_shoot s sid now pos vel) \<noteq> []"
  shows "player_shoot s sid now pos vel =
     (s\<lparr> players := Map_set sid (pl\<lparr> sp_lastShot := now, sp_ammo := sp_ammo pl - 1 \<rparr>) (players s),
         bullets := Map_set (sid, Suc (bulletIdCounter s))
                      (new_ServerBullet (sid, Suc (bulletIdCounter s)) pos vel BULLET_DAMAGE sid)
                      (bullets s),
         bulletIdCounter := Suc (bulletIdCounter s) \<rparr>,
      [PlayerShot sid (sid, Suc (bulletIdCounter s)) pos vel now])"
  using assms by (auto simp: player_shoot_def Let_def split: if_splits)

lemma firePellet_lastShot: "ws_lastShot (firePellet rnd w wp dir d s) = ws_lastShot s"
  by (simp add: firePellet_def acquireBullet_def Bullet_init_def Let_def split: prod.splits)

lemma firePellets_lastShot: "ws_lastShot (firePellets rnd w wp dir d n s) = ws_lastShot s"
  by (induction n arbitrary: s) (simp_all add: firePellet_lastShot)

lemma fireWeapon_lastShot:
  "snd (fireWeapon rnd now wp dir c) \<Longrightarrow> ws_lastShot (fst (fireWeapon rnd now wp dir c)) = now"
  by (auto simp: fireWeapon_def Let_def firePellets_lastShot split: if_splits)

lemma firePellet_ammo: "g_ammo (firePellet rnd w wp dir d s) = g_ammo s"
  by (simp add: firePellet_def acquireBullet_def Bullet_init_def Let_def split: prod.splits)

lemma firePellets_ammo: "g_ammo (firePellets rnd w wp dir d n s) = g_ammo s"
  by (induction n arbitrary: s) (simp_all add: firePellet_ammo)

lemma fireWeapon_ammo:
  "snd (fireWeapon rnd now wp dir c) \<Longrightarrow> g_ammo (fst (fireWeapon rnd now wp dir c)) = g_ammo c - 1"
  by (auto simp: fireWeapon_def Let_def firePellets_ammo split: if_splits)

text \<open>
  C7. A fire action is accepted only if the time since the last accepted shot is at least
  the fire rate (150 ms on the server, the current weapon's \<^verbatim>\<open>fireRate\<close> in the client)
  and the clip holds a round, and it has further gates. The server accepts exactly when
  the player exists, is alive, has a round, and \<open>now - lastShot \<ge> 150\<close>. The client
  accepts whenever the weapon system is initialised, no reload is in progress, the clip
  holds a round and \<open>now - lastShot\<close> exceeds the fire rate. An accepted action stores
  \<open>now\<close> in \<^verbatim>\<open>lastShot\<close> and takes one round from the clip, so that \<^verbatim>\<open>lastShot\<close> is the
  time of the last accepted shot; on the server it also registers the new bullet and
  broadcasts the shot. A rejected action changes no state, on either side.
\<close>

theorem fire_is_gated:
  "(snd (player_shoot s sid now pos vel) \<noteq> [] \<longleftrightarrow>
      (\<exists>pl. Map_get (players s) sid = Some pl \<and> sp_isAlive pl \<and> 0 < sp_ammo pl
         \<and> now - sp_lastShot pl \<ge> 150))
   \<and> (snd (player_shoot s sid now pos vel) = [] \<longrightarrow> fst (player_shoot s sid now pos vel) = s)
   \<and> (snd (fireWeapon rnd now wp dir c) \<longrightarrow>
        ws_init c \<and> \<not> ws_isReloading c \<and> 0 < g_ammo c
        \<and> now - ws_lastShot c \<ge> w_fireRate (weapons (ws_currentWeapon c)))
   \<and> (ws_init c \<and> \<not> ws_isReloading c \<and> 0 < g_ammo c
        \<and> now - ws_lastShot c > w_fireRate (weapons (ws_currentWeapon c)) \<longrightarrow>
        snd (fireWeapon rnd now wp dir c))
   \<and> (\<not> snd (fireWeapon rnd now wp dir c) \<longrightarrow> fst (fireWeapon rnd now wp dir c) = c)
   \<and> (Map_get (players s) sid = Some pl \<and> snd (player_shoot s sid now pos vel) \<noteq> [] \<longrightarrow>
        player_shoot s sid now pos vel =
          (s\<lparr> players :=
                Map_set sid (pl\<lparr> sp_lastShot := now, sp_ammo := sp_ammo pl - 1 \<rparr>) (players s),
              bullets :=
                Map_set (sid, Suc (bulletIdCounter s))
                  (new_ServerBullet (sid, Suc (bulletIdCounter s)) pos vel BULLET_DAMAGE sid)
                  (bullets s),
              bulletIdCounter := Suc (bulletIdCounter s) \<rparr>,
           [PlayerShot sid (sid, Suc (bulletIdCounter s)) pos vel now]))
   \<and> (snd (fireWeapon rnd now wp dir c) \<longrightarrow>
        ws_lastShot (fst (fireWeapon rnd now wp dir c)) = now
        \<and> g_ammo (fst (fireWeapon rnd now wp dir c)) = g_ammo c - 1)"
proof -
  have c3: "snd (fireWeapon rnd now wp dir c) \<longrightarrow>
        ws_init c \<and> \<not> ws_isReloading c \<and> 0 < g_ammo c
        \<and> now - ws_lastShot c \<ge> w_fireRate (weapons (ws_currentWeapon c))"
    by (auto simp: fireWeapon_accepted_iff canShoot_def Let_def split: if_splits)
  have c4: "ws_init c \<and> \<not> ws_isReloading c \<and> 0 < g_ammo c
        \<and> now - ws_lastShot c > w_fireRate (weapons (ws_currentWeapon c)) \<longrightarrow>
        snd (fireWeapon rnd now wp dir c)"
    by (auto simp: fireWeapon_accepted_iff canShoot_def Let_def)
  have c2: "snd (player_shoot s sid now pos vel) = [] \<longrightarrow> fst (player_shoot s sid now pos vel) = s"
    using player_shoot_rejected [of s sid now pos vel] by blast
  have c5: "\<not> snd (fireWeapon rnd now wp dir c) \<longrightarrow> fst (fireWeapon rnd now wp dir c) = c"
    using fireWeapon_rejected [of rnd now wp dir c] by blast
  have c6: "Map_get (players s) sid = Some pl \<and> snd (player_shoot s sid now pos vel) \<noteq> [] \<longrightarrow>
        player_shoot s sid now pos vel =
          (s\<lparr> players :=
                Map_set sid (pl\<lparr> sp_lastShot := now, sp_ammo := sp_ammo pl - 1 \<rparr>) (players s),
              bullets :=
                Map_set (sid, Suc (bulletIdCounter s))
                  (new_ServerBullet (sid, Suc (bulletIdCounter s)) pos vel BULLET_DAMAGE sid)
                  (bullets s),
              bulletIdCounter := Suc (bulletIdCounter s) \<rparr>,
           [PlayerShot sid (sid, Suc (bulletIdCounter s)) pos vel now])"
    using player_shoot_accepted_state [of s sid pl now pos vel] by blast
  have c7: "snd (fireWeapon rnd now wp dir c) \<longrightarrow>
        ws_lastShot (fst (fireWeapon rnd now wp dir c)) = now
        \<and> g_ammo (fst (fireWeapon rnd now wp dir c)) = g_ammo c - 1"
    using fireWeapon_lastShot [of rnd now wp dir c] fireWeapon_ammo [of rnd now wp dir c]
    by blast
  show ?thesis
    by (intro conjI player_shoot_accepted_iff c2 c3 c4 c5 c6 c7)
qed

theorem fire_is_gated_witness:
  "snd (player_shoot (server_with (new_ServerPlayer noise42 0 ''A'' ''A'')) ''A'' 1000 origin origin)
     \<noteq> []
   \<and> Map_get (players (fst (player_shoot (server_with (new_ServerPlayer noise42 0 ''A'' ''A''))
         ''A'' 1000 origin origin))) ''A''
       = Some ((new_ServerPlayer noise42 0 ''A'' ''A'')\<lparr> sp_lastShot := 1000, sp_ammo := 29 \<rparr>)
   \<and> fst (player_shoot (server_with (new_ServerPlayer noise42 0 ''A'' ''A'')) ''A'' 100 origin origin)
     = server_with (new_ServerPlayer noise42 0 ''A'' ''A'')
   \<and> snd (fireWeapon (constant_source 0) 1000 origin origin started_client)
   \<and> ws_lastShot (fst (fireWeapon (constant_source 0) 1000 origin origin started_client)) = 1000
   \<and> g_ammo (fst (fireWeapon (constant_source 0) 1000 origin origin started_client)) = 29
   \<and> fst (fireWeapon (constant_source 0) 100 origin origin started_client) = started_client"
proof -
  let ?pl = "new_ServerPlayer noise42 0 ''A'' ''A''"
  let ?s = "server_with ?pl"
  have pl: "Map_get (players ?s) ''A'' = Some ?pl" "sp_isAlive ?pl" "sp_ammo ?pl = 30"
    "sp_lastShot ?pl = 0"
    by (simp_all add: server_with_def new_ServerPlayer_def Map_get_def AMMO_CAPACITY_def)
  have cl: "ws_init started_client" "\<not> ws_isReloading started_client"
    "g_ammo started_client = 30" "ws_lastShot started_client = 0"
    "w_fireRate (weapons (ws_currentWeapon started_client)) = 150"
    by (simp_all add: started_client_def initial_client_def AMMO_CAPACITY_def)
  note S1 = fire_is_gated [where s = ?s and sid = "''A''" and now = 1000 and pl = ?pl
      and pos = origin and vel = origin]
  have a: "snd (player_shoot ?s ''A'' 1000 origin origin) \<noteq> []"
    using S1 pl by auto
  have a': "Map_get (players (fst (player_shoot ?s ''A'' 1000 origin origin))) ''A''
       = Some (?pl\<lparr> sp_lastShot := 1000, sp_ammo := 29 \<rparr>)"
    using S1 pl a by (simp add: Map_get_set_same)
  have b: "fst (player_shoot ?s ''A'' 100 origin origin) = ?s"
    using fire_is_gated [where s = ?s and sid = "''A''" and now = 100] pl
    by auto
  note C1 = fire_is_gated [where c = started_client and now = 1000
      and rnd = "constant_source 0" and wp = origin and dir = origin]
  have c: "snd (fireWeapon (constant_source 0) 1000 origin origin started_client)"
    using C1 cl by simp
  have c': "ws_lastShot (fst (fireWeapon (constant_source 0) 1000 origin origin started_client))
       = 1000
     \<and> g_ammo (fst (fireWeapon (constant_source 0) 1000 origin origin started_client)) = 29"
    using C1 c cl by simp
  have d: "fst (fireWeapon (constant_source 0) 100 origin origin started_client) = started_client"
    using fire_is_gated [where c = started_client and now = 100] cl
    by auto
  from a a' b c c' d show ?thesis by blast
qed

text \<open>
  The claim as stated fails: 1000 ms after the last shot, with 10 rounds in the clip, the
  client rejects the shot because a reload is in progress.
\<close>

theorem fire_rejected_while_reloading:
  "1000 - ws_lastShot reloading_client \<ge> w_fireRate (weapons (ws_currentWeapon reloading_client))
   \<and> 0 < g_ammo reloading_client
   \<and> \<not> snd (fireWeapon (constant_source 0) 1000 origin origin reloading_client)"
  by (simp add: fireWeapon_def canShoot_def reloading_client_def started_client_def
      initial_client_def)


lemma acquireBullet_frame:
  assumes "acquireBullet s = (r, s1)"
  shows "g_bullets s1 = g_bullets s" "g_ammo s1 = g_ammo s" "ws_init s1 = ws_init s"
    "ws_lastShot s1 = ws_lastShot s" "ws_currentWeapon s1 = ws_currentWeapon s"
    "r' \<noteq> r \<Longrightarrow> bullet_obj s1 r' = bullet_obj s r'"
  using assms by (auto simp: acquireBullet_def split: if_splits)

lemma firePellet_effect:
  assumes "ws_init s"
  shows "\<exists>r. g_bullets (firePellet rnd w wp dir d s) = g_bullets s @ [r]
     \<and> b_damage (bullet_obj (firePellet rnd w wp dir d s) r) = d
     \<and> b_active (bullet_obj (firePellet rnd w wp dir d s) r)
     \<and> (\<forall>r'. r' \<noteq> r \<longrightarrow> bullet_obj (firePellet rnd w wp dir d s) r' = bullet_obj s r')
     \<and> ws_init (firePellet rnd w wp dir d s)
     \<and> g_ammo (firePellet rnd w wp dir d s) = g_ammo s"
proof -
  obtain r s1 where a: "acquireBullet (s\<lparr> draws := draws s + 3 \<rparr>) = (r, s1)"
    by (cases "acquireBullet (s\<lparr> draws := draws s + 3 \<rparr>)")
  note f = acquireBullet_frame [OF a]
  have i: "ws_init s1" using f(3) assms by simp
  have "g_bullets (firePellet rnd w wp dir d s) = g_bullets s @ [r]"
    "b_damage (bullet_obj (firePellet rnd w wp dir d s) r) = d"
    "b_active (bullet_obj (firePellet rnd w wp dir d s) r)"
    "ws_init (firePellet rnd w wp dir d s)"
    "g_ammo (firePellet rnd w wp dir d s) = g_ammo s"
    "\<And>r'. r' \<noteq> r \<Longrightarrow> bullet_obj (firePellet rnd w wp dir d s) r' = bullet_obj s r'"
    using a i f by (simp_all add: firePellet_def Bullet_init_def Let_def)
  then show ?thesis by blast
qed

lemma firePellet_keeps:
  assumes "ws_init s" and "b_damage (bullet_obj s r) = d \<and> b_active (bullet_obj s r)"
  shows "b_damage (bullet_obj (firePellet rnd w wp dir d s) r) = d
     \<and> b_active (bullet_obj (firePellet rnd w wp dir d s) r)"
  using firePellet_effect [OF assms(1), of rnd w wp dir d] assms(2) by metis

lemma firePellets_keeps:
  assumes "ws_init s" and "b_damage (bullet_obj s r) = d \<and> b_active (bullet_obj s r)"
  shows "b_damage (bullet_obj (firePellets rnd w wp dir d n s) r) = d
     \<and> b_active (bullet_obj (firePellets rnd w wp dir d n s) r)"
  using assms
proof (induction n arbitrary: s)
  case 0
  then show ?case by simp
next
  case (Suc n)
  have "ws_init (firePellet rnd w wp dir d s)"
    using firePellet_effect [OF Suc.prems(1), of rnd w wp dir d] by blast
  moreover have "b_damage (bullet_obj (firePellet rnd w wp dir d s) r) = d
     \<and> b_active (bullet_obj (firePellet rnd w wp dir d s) r)"
    using Suc.prems by (rule firePellet_keeps)
  ultimately show ?case
    unfolding firePellets.simps by (rule Suc.IH)
qed

lemma firePellets_effect:
  assumes "ws_init s"
  shows "\<exists>refs. g_bullets (firePellets rnd w wp dir d n s) = g_bullets s @ refs
     \<and> length refs = n
     \<and> (\<forall>r \<in> set refs. b_damage (bullet_obj (firePellets rnd w wp dir d n s) r) = d
                        \<and> b_active (bullet_obj (firePellets rnd w wp dir d n s) r))
     \<and> g_ammo (firePellets rnd w wp dir d n s) = g_ammo s"
  using assms
proof (induction n arbitrary: s)
  case 0
  then show ?case by simp
next
  case (Suc n)
  define s1 where "s1 = firePellet rnd w wp dir d s"
  obtain r where r: "g_bullets s1 = g_bullets s @ [r]" "b_damage (bullet_obj s1 r) = d"
    "b_active (bullet_obj s1 r)" "ws_init s1" "g_ammo s1 = g_ammo s"
    using firePellet_effect [OF Suc.prems, of rnd w wp dir d] unfolding s1_def by blast
  define t where "t = firePellets rnd w wp dir d n s1"
  obtain refs where refs: "g_bullets t = g_bullets s1 @ refs" "length refs = n"
    "\<forall>r \<in> set refs. b_damage (bullet_obj t r) = d \<and> b_active (bullet_obj t r)"
    "g_ammo t = g_ammo s1"
    using Suc.IH [OF r(4)] unfolding t_def by blast
  have keep: "b_damage (bullet_obj t r) = d \<and> b_active (bullet_obj t r)"
    unfolding t_def using r(4) r(2,3) by (intro firePellets_keeps) simp_all
  have "g_bullets t = g_bullets s @ (r # refs)" using r refs by simp
  moreover have "length (r # refs) = Suc n" using refs by simp
  moreover have "\<forall>r' \<in> set (r # refs). b_damage (bullet_obj t r') = d \<and> b_active (bullet_obj t r')"
    using refs keep by simp
  moreover have "g_ammo t = g_ammo s" using r refs by simp
  ultimately show ?case
    unfolding firePellets.simps s1_def [symmetric] t_def [symmetric] by blast
qed


lemma sum_list_const:
  "(\<forall>r \<in> set refs. f r = (d::real)) \<Longrightarrow> sum_list (map f refs) = real (length refs) * d"
  by (induction refs) (simp_all add: algebra_simps)

text \<open>
  Firing keeps the bookkeeping of the bullets sound: a pellet takes its bullet from the
  pool or constructs a new one, so the bullet is not among the active ones before.
\<close>

lemma bullets_sound_started: "bullets_sound started_client"
  by (simp add: bullets_sound_def started_client_def initial_client_def new_Bullet_def)

lemma firePellet_sound:
  assumes "ws_init s" and "bullets_sound s"
  shows "bullets_sound (firePellet rnd w wp dir d s)"
proof (cases "ws_pool_available s = []")
  case True
  with assms show ?thesis
    by (auto simp: bullets_sound_def firePellet_def acquireBullet_def Bullet_init_def Let_def
        list_all_iff less_Suc_eq)
next
  case False
  then have pool: "ws_pool_available s = butlast (ws_pool_available s) @ [last (ws_pool_available s)]"
    by simp
  define q where "q = butlast (ws_pool_available s)"
  define r where "r = last (ws_pool_available s)"
  have pool': "ws_pool_available s = q @ [r]" using pool by (simp add: q_def r_def)
  have res: "firePellet rnd w wp dir d s =
     s\<lparr> draws := draws s + 3, ws_pool_available := q,
        bullet_obj := (bullet_obj s)(r := (bullet_obj s r)\<lparr> b_position := wp, b_previousPosition := wp,
           b_velocity := multiplyScalar (normalize
              \<lparr> vx = vx dir + (rnd (draws s) - 0.5) * ((1 - w_accuracy w) * 0.1),
                vy = vy dir + (rnd (draws s + 1) - 0.5) * ((1 - w_accuracy w) * 0.1),
                vz = vz dir + (rnd (draws s + 2) - 0.5) * ((1 - w_accuracy w) * 0.1) \<rparr>) BULLET_SPEED,
           b_damage := d, b_life := 3, b_active := True \<rparr>),
        g_bullets := g_bullets s @ [r] \<rparr>"
    using False assms(1)
    by (simp add: firePellet_def acquireBullet_def Bullet_init_def Let_def q_def r_def)
  show ?thesis
    using assms unfolding res bullets_sound_def
    by (auto simp: pool' list_all_iff)
qed


lemma firePellet_init: "ws_init s \<Longrightarrow> ws_init (firePellet rnd w wp dir d s)"
  by (simp add: firePellet_def acquireBullet_def Bullet_init_def Let_def split: prod.splits)

lemma firePellets_sound:
  assumes "ws_init s" and "bullets_sound s"
  shows "bullets_sound (firePellets rnd w wp dir d n s)"
  using assms
proof (induction n arbitrary: s)
  case 0
  then show ?case by simp
next
  case (Suc n)
  have "ws_init (firePellet rnd w wp dir d s)"
    using Suc.prems(1) by (rule firePellet_init)
  moreover have "bullets_sound (firePellet rnd w wp dir d s)"
    using Suc.prems by (rule firePellet_sound)
  ultimately show ?case
    unfolding firePellets.simps by (rule Suc.IH)
qed

lemma bullets_sound_fields:
  assumes "bullets_sound s"
    and "ws_pool_available t = ws_pool_available s" and "g_bullets t = g_bullets s"
    and "ws_pool_created t = ws_pool_created s" and "ws_init t = ws_init s"
    and "\<And>r. b_active (bullet_obj t r) = b_active (bullet_obj s r)"
  shows "bullets_sound t"
  using assms by (simp add: bullets_sound_def)

lemma fireWeapon_sound:
  assumes "bullets_sound s"
  shows "bullets_sound (fst (fireWeapon rnd now wp dir s))"
proof (cases "snd (fireWeapon rnd now wp dir s)")
  case False
  then have "fst (fireWeapon rnd now wp dir s) = s" by (rule fireWeapon_rejected)
  with assms show ?thesis by simp
next
  case True
  then have init: "ws_init s"
    by (auto simp: fireWeapon_def split: if_splits)
  have "bullets_sound (s\<lparr> ws_lastShot := now \<rparr>)"
    using assms by (rule bullets_sound_fields) simp_all
  then have "bullets_sound (firePellets rnd w wp dir d n (s\<lparr> ws_lastShot := now \<rparr>))" for w d n
    using init by (intro firePellets_sound) simp_all
  then have "bullets_sound ((firePellets rnd w wp dir d n (s\<lparr> ws_lastShot := now \<rparr>))
      \<lparr> g_ammo := a \<rparr>)" for w d n a
    by (rule bullets_sound_fields) simp_all
  with True show ?thesis
    by (auto simp: fireWeapon_def Let_def split: if_splits)
qed

text \<open>
  C10. An accepted \<^verbatim>\<open>fireWeapon\<close> takes one round from the clip whatever the pellet
  count, and appends to the active bullets as many bullets as the weapon has pellets (one
  when it defines none), each active and carrying the weapon's damage divided by that
  number, so that their damages add up to the weapon's damage. When the bookkeeping of the
  bullets is sound, the appended bullets are distinct objects, none of which was active
  before.
\<close>

theorem fireWeapon_costs_one_round:
  assumes "snd (fireWeapon rnd now wp dir s)"
  shows "g_ammo (fst (fireWeapon rnd now wp dir s)) = g_ammo s - 1
    \<and> (\<exists>refs. g_bullets (fst (fireWeapon rnd now wp dir s)) = g_bullets s @ refs
          \<and> length refs = (case w_pellets (weapons (ws_currentWeapon s)) of None \<Rightarrow> 1 | Some n \<Rightarrow> n)
          \<and> (\<forall>r \<in> set refs.
                b_active (bullet_obj (fst (fireWeapon rnd now wp dir s)) r)
                \<and> b_damage (bullet_obj (fst (fireWeapon rnd now wp dir s)) r)
                    = w_damage (weapons (ws_currentWeapon s)) / real (length refs))
          \<and> sum_list (map (\<lambda>r. b_damage (bullet_obj (fst (fireWeapon rnd now wp dir s)) r)) refs)
              = w_damage (weapons (ws_currentWeapon s))
          \<and> (bullets_sound s \<longrightarrow> distinct refs \<and> set refs \<inter> set (g_bullets s) = {}))"
proof -
  define w where "w = weapons (ws_currentWeapon s)"
  define n where "n = (case w_pellets w of None \<Rightarrow> 1 | Some n \<Rightarrow> if n = 0 then 1 else n)"
  define d where "d = w_damage w / real n"
  define s2 where "s2 = firePellets rnd w wp dir d n (s\<lparr> ws_lastShot := now \<rparr>)"
  have n: "n = (case w_pellets w of None \<Rightarrow> 1 | Some n \<Rightarrow> n)" "0 < n"
    unfolding n_def w_def by (cases "ws_currentWeapon s"; simp)+
  have init: "ws_init s" and can: "canShoot s now"
    using assms by (auto simp: fireWeapon_def split: if_splits)
  then have res: "fst (fireWeapon rnd now wp dir s) = s2\<lparr> g_ammo := g_ammo s2 - 1 \<rparr>"
    by (simp add: fireWeapon_def Let_def s2_def d_def n_def w_def)
  obtain refs where refs: "g_bullets s2 = g_bullets s @ refs" "length refs = n"
    "\<forall>r \<in> set refs. b_damage (bullet_obj s2 r) = d \<and> b_active (bullet_obj s2 r)"
    "g_ammo s2 = g_ammo s"
    using firePellets_effect [of "s\<lparr> ws_lastShot := now \<rparr>" rnd w wp dir d n] init
    unfolding s2_def by auto
  have "sum_list (map (\<lambda>r. b_damage (bullet_obj s2 r)) refs) = real (length refs) * d"
    using refs(3) by (intro sum_list_const) simp
  also have "\<dots> = w_damage w"
    using n(2) refs(2) by (simp add: d_def)
  finally have total: "sum_list (map (\<lambda>r. b_damage (bullet_obj s2 r)) refs) = w_damage w" .
  have fresh: "distinct refs \<and> set refs \<inter> set (g_bullets s) = {}" if "bullets_sound s"
  proof -
    have "bullets_sound (fst (fireWeapon rnd now wp dir s))"
      using that by (rule fireWeapon_sound)
    then have "distinct (g_bullets s @ refs)"
      unfolding res by (simp add: bullets_sound_def refs(1))
    then show ?thesis by auto
  qed
  show ?thesis
    unfolding res w_def [symmetric] n(1) [symmetric]
    using refs total fresh by (auto simp: d_def)
qed

theorem fireWeapon_costs_one_round_witness:
  "snd (fireWeapon (constant_source 0) 1000 origin origin shotgun_client)
   \<and> bullets_sound shotgun_client
   \<and> g_ammo shotgun_client = 30
   \<and> g_ammo (fst (fireWeapon (constant_source 0) 1000 origin origin shotgun_client)) = 29
   \<and> (\<exists>refs. g_bullets (fst (fireWeapon (constant_source 0) 1000 origin origin shotgun_client))
                = refs
         \<and> length refs = 5 \<and> distinct refs
         \<and> sum_list (map (\<lambda>r. b_damage (bullet_obj
               (fst (fireWeapon (constant_source 0) 1000 origin origin shotgun_client)) r)) refs)
             = 80)"
proof -
  have a: "snd (fireWeapon (constant_source 0) 1000 origin origin shotgun_client)"
    by (simp add: fireWeapon_accepted_iff canShoot_def shotgun_client_def started_client_def
        initial_client_def AMMO_CAPACITY_def)
  have g: "g_ammo shotgun_client = 30" "g_bullets shotgun_client = []"
    "ws_currentWeapon shotgun_client = shotgun"
    by (simp_all add: shotgun_client_def started_client_def initial_client_def AMMO_CAPACITY_def)
  have b: "bullets_sound shotgun_client"
    unfolding shotgun_client_def using bullets_sound_started
    by (rule bullets_sound_fields) simp_all
  show ?thesis
    using fireWeapon_costs_one_round [OF a] a g b by auto
qed

section \<open>Projectiles\<close>

lemma update_inactive:
  "\<not> sb_isActive b \<Longrightarrow> ServerBullet_update p delta ps b = (b, ps, [], False)"
  by (simp add: ServerBullet_update_def)

lemma update_returns_active:
  "snd (snd (snd (ServerBullet_update p delta ps b))) = sb_isActive (fst (ServerBullet_update p delta ps b))"
  by (simp add: ServerBullet_update_def Let_def split: option.splits prod.splits)

lemma update_bounceCount:
  "sb_bounceCount (fst (ServerBullet_update p delta ps b)) = sb_bounceCount b
   \<or> (sb_bounceCount b < BULLET_MAX_BOUNCES
       \<and> sb_bounceCount (fst (ServerBullet_update p delta ps b)) = sb_bounceCount b + 1)"
  by (simp add: ServerBullet_update_def Let_def split: option.splits prod.splits)

lemma update_bounce_bounded:
  "sb_bounceCount b \<le> BULLET_MAX_BOUNCES \<Longrightarrow>
     sb_bounceCount (fst (ServerBullet_update p delta ps b)) \<le> BULLET_MAX_BOUNCES"
  using update_bounceCount [of p delta ps b] by auto

lemma reachable_bounce_bounded:
  "reachable_bullet p b \<Longrightarrow> sb_bounceCount b \<le> BULLET_MAX_BOUNCES"
proof (induction rule: reachable_bullet.induct)
  case (created ident position velocity damage ownerId)
  show ?case by (simp add: new_ServerBullet_def BULLET_MAX_BOUNCES_def)
next
  case (updated b delta ps)
  from updated.IH show ?case by (rule update_bounce_bounded)
qed

lemma update_bounce:
  assumes "sb_isActive b"
    and "vy (sb_position b) + (vy (sb_velocity b) + BULLET_GRAVITY * delta) * delta
          < of_int (getTerrainHeight p (vx (sb_position b) + vx (sb_velocity b) * delta)
                      (vz (sb_position b) + vz (sb_velocity b) * delta))"
    and "sb_bounceCount b < BULLET_MAX_BOUNCES"
  shows "vy (sb_velocity (fst (ServerBullet_update p delta ps b)))
           = - (vy (sb_velocity b) + BULLET_GRAVITY * delta) * BULLET_BOUNCE_DAMPENING"
    and "sb_bounceCount (fst (ServerBullet_update p delta ps b)) = sb_bounceCount b + 1"
    and "vy (sb_position (fst (ServerBullet_update p delta ps b)))
           = of_int (getTerrainHeight p (vx (sb_position b) + vx (sb_velocity b) * delta)
                      (vz (sb_position b) + vz (sb_velocity b) * delta))"
  using assms
  by (simp_all add: ServerBullet_update_def Let_def split: option.splits prod.splits)

lemma update_beyond_limit:
  assumes "sb_isActive b"
    and "vy (sb_position b) + (vy (sb_velocity b) + BULLET_GRAVITY * delta) * delta
          < of_int (getTerrainHeight p (vx (sb_position b) + vx (sb_velocity b) * delta)
                      (vz (sb_position b) + vz (sb_velocity b) * delta))"
    and "\<not> sb_bounceCount b < BULLET_MAX_BOUNCES"
  shows "\<not> sb_isActive (fst (ServerBullet_update p delta ps b))"
    and "\<not> snd (snd (snd (ServerBullet_update p delta ps b)))"
    and "sb_bounceCount (fst (ServerBullet_update p delta ps b)) = sb_bounceCount b"
  using assms
  by (simp_all add: ServerBullet_update_def Let_def)


lemma Bullet_update_returns_nothing: "snd (Bullet_update p rnd delta this c) = None"
  by (simp add: Bullet_update_def Let_def split: option.splits prod.splits)

lemma Bullet_update_inactive:
  "\<not> b_active (bullet_obj c this) \<Longrightarrow> Bullet_update p rnd delta this c = (c, None)"
  by (simp add: Bullet_update_def)

lemma releaseBullet_obj: "bullet_obj (releaseBullet r s) = bullet_obj s"
  by (simp add: releaseBullet_def)

lemma Bullet_deactivate_inactive: "\<not> b_active (bullet_obj (Bullet_deactivate this s) this)"
  by (simp add: Bullet_deactivate_def Let_def releaseBullet_obj)

lemma Enemy_takeDamage_bullets:
  "ws_pool_available (fst (Enemy_takeDamage e d s)) = ws_pool_available s"
  "g_bullets (fst (Enemy_takeDamage e d s)) = g_bullets s"
  "ws_pool_created (fst (Enemy_takeDamage e d s)) = ws_pool_created s"
  "ws_init (fst (Enemy_takeDamage e d s)) = ws_init s"
  "bullet_obj (fst (Enemy_takeDamage e d s)) = bullet_obj s"
  by (simp_all add: Enemy_takeDamage_def Enemy_destroy_def Let_def)

lemma Bullet_deactivate_obj:
  "bullet_obj (Bullet_deactivate this s) = (bullet_obj s)(this := (bullet_obj s this)\<lparr> b_active := False \<rparr>)"
  by (simp add: Bullet_deactivate_def Let_def releaseBullet_obj)

lemma Bullet_update_terrain_any:
  assumes "b_active (bullet_obj c this)"
    and "fst (terrainCollision p rnd (b_position (bullet_obj c this))
           (addScaledVector (b_position (bullet_obj c this)) (b_velocity (bullet_obj c this)) delta)
           (draws c))"
  shows "\<not> b_active (bullet_obj (fst (Bullet_update p rnd delta this c)) this)"
  using assms
  by (auto simp: Bullet_update_def Let_def Bullet_deactivate_inactive split: prod.splits option.splits)

lemma Bullet_update_velocity:
  "b_velocity (bullet_obj (fst (Bullet_update p rnd delta this c)) this)
     = b_velocity (bullet_obj c this)"
  by (auto simp: Bullet_update_def Let_def Bullet_deactivate_obj Enemy_takeDamage_bullets
      split: prod.splits option.splits)

lemma Bullet_deactivate_list:
  "ws_init s \<Longrightarrow> g_bullets (Bullet_deactivate this s) = remove1 this (g_bullets s)"
  by (simp add: Bullet_deactivate_def releaseBullet_def Let_def)

lemma Bullet_update_removes:
  assumes "ws_init c" and "b_active (bullet_obj c this)"
    and "\<not> b_active (bullet_obj (fst (Bullet_update p rnd delta this c)) this)"
  shows "g_bullets (fst (Bullet_update p rnd delta this c)) = remove1 this (g_bullets c)"
  using assms
  by (auto simp: Bullet_update_def Let_def Bullet_deactivate_list Enemy_takeDamage_bullets
      split: prod.splits option.splits if_splits)

lemma Bullet_update_keeps:
  assumes "b_active (bullet_obj (fst (Bullet_update p rnd delta this c)) this)"
  shows "g_bullets (fst (Bullet_update p rnd delta this c)) = g_bullets c"
  using assms
  by (auto simp: Bullet_update_def Let_def Bullet_deactivate_inactive
      split: prod.splits option.splits if_splits)

lemma Bullet_update_not_listed:
  assumes "bullets_sound c" and "ws_init c" and "b_active (bullet_obj c this)"
    and "\<not> b_active (bullet_obj (fst (Bullet_update p rnd delta this c)) this)"
  shows "this \<notin> set (g_bullets (fst (Bullet_update p rnd delta this c)))"
proof -
  have "distinct (g_bullets c)" using assms(1) by (simp add: bullets_sound_def)
  then show ?thesis
    using Bullet_update_removes [OF assms(2-4)] by simp
qed

lemma Bullet_update_terrain:
  assumes "b_active (bullet_obj c this)" and "g_enemies c = []"
    and "fst (terrainCollision p rnd (b_position (bullet_obj c this))
           (addScaledVector (b_position (bullet_obj c this)) (b_velocity (bullet_obj c this)) delta)
           (draws c))"
  shows "\<not> b_active (bullet_obj (fst (Bullet_update p rnd delta this c)) this)"
  using assms
  by (auto simp: Bullet_update_def Let_def Bullet_deactivate_inactive split: prod.splits)

text \<open>The worked examples: a bullet over the column \<open>(0, 0)\<close>, whose surface height is 21.\<close>

lemma height_origin: "getTerrainHeight p 0 0 = 21"
  by (simp add: getTerrainHeight_base surface_origin)

lemma falling_bullet_update:
  "ServerBullet_update noise42 (1 / 10) [] falling_bullet =
     (falling_bullet\<lparr> sb_velocity := \<lparr> vx = 0, vy = 23 / 5, vz = 0 \<rparr>,
                      sb_position := \<lparr> vx = 0, vy = 21, vz = 0 \<rparr>,
                      sb_bounceCount := 1, sb_life := 49 / 10 \<rparr>, [], [], True)"
  by (simp add: ServerBullet_update_def falling_bullet_def new_ServerBullet_def Let_def
      height_origin BULLET_GRAVITY_def BULLET_MAX_BOUNCES_def BULLET_BOUNCE_DAMPENING_def
      WORLD_HEIGHT_def)

lemma spent_bullet_update:
  "\<not> sb_isActive (fst (ServerBullet_update noise42 (1 / 10) [] spent_bullet))
   \<and> \<not> snd (snd (snd (ServerBullet_update noise42 (1 / 10) [] spent_bullet)))"
  by (simp add: ServerBullet_update_def spent_bullet_def falling_bullet_def new_ServerBullet_def
      Let_def height_origin BULLET_GRAVITY_def BULLET_MAX_BOUNCES_def)

lemma column_origin:
  "getBlockType p rnd k 0 20 0 = (GRASS, k)"
  "getBlockType p rnd k 0 21 0 = (if rnd k < 0.01 then (TREE, Suc k) else (AIR, Suc k))"
  "getBlockType p rnd k 0 39 0 = (AIR, k)"
  "getBlockType p rnd k 0 40 0 = (AIR, k)"
  using surface_origin [of p] octaveNoise_origin [of p]
  by (simp_all add: getBlockType_flat)

lemma client_with_bullet:
  "bullet_obj (client_with_bullet_at h) 0 =
     \<lparr> b_velocity = \<lparr> vx = 0, vy = - 100, vz = 0 \<rparr>, b_damage = 40, b_life = 3, b_active = True,
       b_position = \<lparr> vx = 1 / 2, vy = h, vz = 1 / 2 \<rparr>,
       b_previousPosition = \<lparr> vx = 1 / 2, vy = h, vz = 1 / 2 \<rparr> \<rparr>"
  "g_bullets (client_with_bullet_at h) = [0]" "g_enemies (client_with_bullet_at h) = []"
  "ws_init (client_with_bullet_at h)" "draws (client_with_bullet_at h) = 0"
  "ws_pool_available (client_with_bullet_at h) = []"
  by (simp_all add: client_with_bullet_at_def Bullet_init_def acquireBullet_def started_client_def
      initial_client_def new_Bullet_def multiplyScalar_def BULLET_SPEED_def Let_def)

lemma client_with_bullet_sound: "bullets_sound (client_with_bullet_at h)"
  by (simp add: bullets_sound_def client_with_bullet_at_def Bullet_init_def acquireBullet_def
      started_client_def initial_client_def new_Bullet_def Let_def)

lemma terrain_hit:
  "terrainCollision noise42 (constant_source (1 / 2)) \<lparr> vx = 1 / 2, vy = 43 / 2, vz = 1 / 2 \<rparr>
     \<lparr> vx = 1 / 2, vy = 41 / 2, vz = 1 / 2 \<rparr> 0 = (True, 1)"
  by (simp add: terrainCollision_def Let_def subVectors_def vlength_def normalize_def
      multiplyScalar_def addScaledVector_def BLOCK_SIZE_def checkPath.simps column_origin
      constant_source_def)

lemma terrain_miss:
  "terrainCollision noise42 (constant_source (1 / 2)) \<lparr> vx = 1 / 2, vy = 81 / 2, vz = 1 / 2 \<rparr>
     \<lparr> vx = 1 / 2, vy = 79 / 2, vz = 1 / 2 \<rparr> 0 = (False, 0)"
  by (simp add: terrainCollision_def Let_def subVectors_def vlength_def normalize_def
      multiplyScalar_def addScaledVector_def BLOCK_SIZE_def checkPath.simps column_origin
      constant_source_def)

lemma falling_client_update:
  "\<not> b_active (bullet_obj (fst (Bullet_update noise42 (constant_source (1 / 2)) (1 / 100) 0
        (client_with_bullet_at (43 / 2)))) 0)"
  "b_velocity (bullet_obj (fst (Bullet_update noise42 (constant_source (1 / 2)) (1 / 100) 0
        (client_with_bullet_at (43 / 2)))) 0) = \<lparr> vx = 0, vy = - 100, vz = 0 \<rparr>"
  "b_life (bullet_obj (fst (Bullet_update noise42 (constant_source (1 / 2)) (1 / 100) 0
        (client_with_bullet_at (43 / 2)))) 0) = 3"
  by (simp_all add: Bullet_update_def Let_def client_with_bullet addScaledVector_def terrain_hit
      Bullet_deactivate_def releaseBullet_obj)

lemma flying_client_update:
  "b_active (bullet_obj (fst (Bullet_update noise42 (constant_source (1 / 2)) (1 / 100) 0
        (client_with_bullet_at (81 / 2)))) 0)"
  by (simp add: Bullet_update_def Let_def client_with_bullet addScaledVector_def terrain_miss)

text \<open>
  C5. On the server the bounce count of a bullet never exceeds \<^verbatim>\<open>BULLET_MAX_BOUNCES\<close>
  (3). When an active bullet ends its move below the terrain height and has bounced fewer
  than 3 times, \<^verbatim>\<open>update\<close> reflects its vertical velocity (already changed by gravity) and
  scales it by \<^verbatim>\<open>BULLET_BOUNCE_DAMPENING\<close>, adds one to the bounce count and puts the bullet
  on the surface; when it has bounced 3 times, \<^verbatim>\<open>update\<close> deactivates it, returns false and
  leaves the count. The client's bullet has no bounce count: \<^verbatim>\<open>update\<close> never changes
  its velocity, and a terrain collision deactivates it at once.
\<close>

theorem bounce_count_bounded:
  "(reachable_bullet p b \<longrightarrow> sb_bounceCount b \<le> BULLET_MAX_BOUNCES)
   \<and> (sb_isActive b
        \<and> vy (sb_position b) + (vy (sb_velocity b) + BULLET_GRAVITY * delta) * delta
            < of_int (getTerrainHeight p (vx (sb_position b) + vx (sb_velocity b) * delta)
                        (vz (sb_position b) + vz (sb_velocity b) * delta))
        \<and> sb_bounceCount b < BULLET_MAX_BOUNCES \<longrightarrow>
        vy (sb_velocity (fst (ServerBullet_update p delta ps b)))
          = - (vy (sb_velocity b) + BULLET_GRAVITY * delta) * BULLET_BOUNCE_DAMPENING
        \<and> sb_bounceCount (fst (ServerBullet_update p delta ps b)) = sb_bounceCount b + 1
        \<and> vy (sb_position (fst (ServerBullet_update p delta ps b)))
            = of_int (getTerrainHeight p (vx (sb_position b) + vx (sb_velocity b) * delta)
                        (vz (sb_position b) + vz (sb_velocity b) * delta)))
   \<and> (sb_isActive b
        \<and> vy (sb_position b) + (vy (sb_velocity b) + BULLET_GRAVITY * delta) * delta
            < of_int (getTerrainHeight p (vx (sb_position b) + vx (sb_velocity b) * delta)
                        (vz (sb_position b) + vz (sb_velocity b) * delta))
        \<and> \<not> sb_bounceCount b < BULLET_MAX_BOUNCES \<longrightarrow>
        \<not> sb_isActive (fst (ServerBullet_update p delta ps b))
        \<and> \<not> snd (snd (snd (ServerBullet_update p delta ps b)))
        \<and> sb_bounceCount (fst (ServerBullet_update p delta ps b)) = sb_bounceCount b)
   \<and> (b_active (bullet_obj c this)
        \<and> fst (terrainCollision p rnd (b_position (bullet_obj c this))
                 (addScaledVector (b_position (bullet_obj c this))
                    (b_velocity (bullet_obj c this)) delta)
                 (draws c)) \<longrightarrow>
        \<not> b_active (bullet_obj (fst (Bullet_update p rnd delta this c)) this))
   \<and> b_velocity (bullet_obj (fst (Bullet_update p rnd delta this c)) this)
       = b_velocity (bullet_obj c this)"
  using reachable_bounce_bounded [of p b] update_bounce [of b delta p ps]
    update_beyond_limit [of b delta p ps] Bullet_update_terrain_any [of c this p rnd delta]
    Bullet_update_velocity [of p rnd delta this c]
  by blast

theorem bounce_count_bounded_witness:
  "reachable_bullet noise42 falling_bullet
   \<and> sb_bounceCount falling_bullet = 0
   \<and> sb_isActive falling_bullet
   \<and> vy (sb_velocity (fst (ServerBullet_update noise42 (1 / 10) [] falling_bullet))) = 23 / 5
   \<and> sb_bounceCount (fst (ServerBullet_update noise42 (1 / 10) [] falling_bullet)) = 1
   \<and> vy (sb_position (fst (ServerBullet_update noise42 (1 / 10) [] falling_bullet))) = 21
   \<and> sb_bounceCount spent_bullet = 3
   \<and> \<not> sb_isActive (fst (ServerBullet_update noise42 (1 / 10) [] spent_bullet))
   \<and> \<not> snd (snd (snd (ServerBullet_update noise42 (1 / 10) [] spent_bullet)))
   \<and> \<not> b_active (bullet_obj (fst (Bullet_update noise42 (constant_source (1 / 2)) (1 / 100) 0
            (client_with_bullet_at (43 / 2)))) 0)"
proof -
  have r: "reachable_bullet noise42 falling_bullet"
    unfolding falling_bullet_def by (rule reachable_bullet.created)
  have f: "sb_bounceCount falling_bullet = 0" "sb_isActive falling_bullet"
    "sb_position falling_bullet = \<lparr> vx = 0, vy = 22, vz = 0 \<rparr>"
    "sb_velocity falling_bullet = \<lparr> vx = 0, vy = - 10, vz = 0 \<rparr>"
    by (simp_all add: falling_bullet_def new_ServerBullet_def)
  have s: "sb_bounceCount spent_bullet = 3" "sb_isActive spent_bullet"
    "sb_position spent_bullet = \<lparr> vx = 0, vy = 22, vz = 0 \<rparr>"
    "sb_velocity spent_bullet = \<lparr> vx = 0, vy = - 10, vz = 0 \<rparr>"
    by (simp_all add: spent_bullet_def f)
  have c: "b_active (bullet_obj (client_with_bullet_at (43 / 2)) 0)"
    "fst (terrainCollision noise42 (constant_source (1 / 2))
            (b_position (bullet_obj (client_with_bullet_at (43 / 2)) 0))
            (addScaledVector (b_position (bullet_obj (client_with_bullet_at (43 / 2)) 0))
               (b_velocity (bullet_obj (client_with_bullet_at (43 / 2)) 0)) (1 / 100))
            (draws (client_with_bullet_at (43 / 2))))"
    by (simp_all add: client_with_bullet addScaledVector_def terrain_hit)
  note T1 = bounce_count_bounded
    [where p = noise42 and b = falling_bullet and delta = "1 / 10" and ps = "[]"
      and c = "client_with_bullet_at (43 / 2)" and this = 0 and rnd = "constant_source (1 / 2)"]
  note T2 = bounce_count_bounded
    [where p = noise42 and b = spent_bullet and delta = "1 / 10" and ps = "[]"]
  have b1: "vy (sb_velocity (fst (ServerBullet_update noise42 (1 / 10) [] falling_bullet))) = 23 / 5
     \<and> sb_bounceCount (fst (ServerBullet_update noise42 (1 / 10) [] falling_bullet)) = 1
     \<and> vy (sb_position (fst (ServerBullet_update noise42 (1 / 10) [] falling_bullet))) = 21"
    using T1 f
    by (simp add: height_origin BULLET_GRAVITY_def BULLET_MAX_BOUNCES_def
        BULLET_BOUNCE_DAMPENING_def)
  have b2: "\<not> sb_isActive (fst (ServerBullet_update noise42 (1 / 10) [] spent_bullet))
     \<and> \<not> snd (snd (snd (ServerBullet_update noise42 (1 / 10) [] spent_bullet)))"
    using T2 s by (simp add: height_origin BULLET_GRAVITY_def BULLET_MAX_BOUNCES_def)
  have b3: "\<not> b_active (bullet_obj (fst (Bullet_update noise42 (constant_source (1 / 2))
        (1 / 100) 0 (client_with_bullet_at (43 / 2)))) 0)"
    using bounce_count_bounded [where p = noise42 and c = "client_with_bullet_at (43 / 2)"
        and this = 0 and rnd = "constant_source (1 / 2)" and delta = "1 / 100"] c
    by blast
  from r f(1,2) s(1) b1 b2 b3 show ?thesis by blast
qed

text \<open>
  The claim as stated fails for the projectiles of the client: a bullet that has never
  bounced and meets the grass block at \<open>(0, 20, 0)\<close> on its first move is deactivated, and
  its velocity is not reflected.
\<close>

theorem client_bullet_never_bounces:
  "b_active (bullet_obj (client_with_bullet_at (43 / 2)) 0)
   \<and> b_velocity (bullet_obj (client_with_bullet_at (43 / 2)) 0) = \<lparr> vx = 0, vy = - 100, vz = 0 \<rparr>
   \<and> fst (terrainCollision noise42 (constant_source (1 / 2))
            \<lparr> vx = 1 / 2, vy = 43 / 2, vz = 1 / 2 \<rparr> \<lparr> vx = 1 / 2, vy = 41 / 2, vz = 1 / 2 \<rparr> 0)
   \<and> \<not> b_active (bullet_obj (fst (Bullet_update noise42 (constant_source (1 / 2)) (1 / 100) 0
            (client_with_bullet_at (43 / 2)))) 0)
   \<and> b_velocity (bullet_obj (fst (Bullet_update noise42 (constant_source (1 / 2)) (1 / 100) 0
            (client_with_bullet_at (43 / 2)))) 0) = \<lparr> vx = 0, vy = - 100, vz = 0 \<rparr>"
  by (simp add: falling_client_update client_with_bullet terrain_hit)

text \<open>
  The loop over the players finds nobody exactly when no living player other than the
  owner is closer than one unit to the bullet.
\<close>

lemma checkPlayerCollisions_None_iff:
  "checkPlayerCollisions this ps = None \<longleftrightarrow>
     \<not> (\<exists>(playerId, player) \<in> set ps. playerId \<noteq> sb_ownerId this \<and> sp_isAlive player
          \<and> sqrt ((vx (sb_position this) - vx (sp_position player)) ^ 2
                 + (vy (sb_position this) - vy (sp_position player)) ^ 2
                 + (vz (sb_position this) - vz (sp_position player)) ^ 2) < 1)"
  by (induction ps) (auto simp: Let_def split: prod.splits)

lemma returned_of_collision:
  "snd (snd (snd (case c of None \<Rightarrow> (t, ps, [], True)
                            | Some (ps', m) \<Rightarrow> (t', ps', [m], False)))) = (c = None)"
  by (cases c) auto

lemma update_causes:
  fixes b :: ServerBullet and delta :: real and p :: "int list"
  defines "v1y \<equiv> vy (sb_velocity b) + BULLET_GRAVITY * delta"
  defines "x1 \<equiv> vx (sb_position b) + vx (sb_velocity b) * delta"
    and "y1 \<equiv> vy (sb_position b) + v1y * delta"
    and "z1 \<equiv> vz (sb_position b) + vz (sb_velocity b) * delta"
  defines "h \<equiv> real_of_int (getTerrainHeight p x1 z1)"
  defines "y2 \<equiv> (if y1 < h then h else y1)"
  assumes "sb_isActive b"
  shows "\<not> snd (snd (snd (ServerBullet_update p delta ps b))) \<longleftrightarrow>
      (y1 < h \<and> \<not> sb_bounceCount b < BULLET_MAX_BOUNCES)
      \<or> y2 > of_int WORLD_HEIGHT + 50
      \<or> sb_life b - delta \<le> 0
      \<or> (\<exists>(playerId, player) \<in> set ps. playerId \<noteq> sb_ownerId b \<and> sp_isAlive player
            \<and> sqrt ((x1 - vx (sp_position player)) ^ 2 + (y2 - vy (sp_position player)) ^ 2
                   + (z1 - vz (sp_position player)) ^ 2) < 1)"
  using assms(7)
  unfolding assms(1-6)
  by (simp add: ServerBullet_update_def Let_def returned_of_collision
      checkPlayerCollisions_None_iff)

text \<open>
  C8. \<^verbatim>\<open>ServerBullet.update\<close> returns a boolean, which is the bullet's \<^verbatim>\<open>isActive\<close> flag
  after the call: false exactly when the bullet became inactive during the call or was
  inactive on entry, in which case the call changes nothing. An active bullet becomes
  inactive exactly by a terrain impact beyond the bounce limit, by leaving the world
  bounds, by the end of its life time or by hitting a living player other than its owner.
  The client's \<^verbatim>\<open>Bullet.update\<close> returns no value in any case; it too changes nothing
  when the bullet is inactive on entry. When it deactivates a bullet it removes the bullet
  from the list of active bullets itself (once the weapon system is initialised), after
  which the bullet is no longer in the list if the bookkeeping of the bullets was sound;
  when the bullet stays active the list is unchanged.
\<close>

theorem update_return_value:
  fixes b :: ServerBullet and delta :: real and p :: "int list"
  defines "v1y \<equiv> vy (sb_velocity b) + BULLET_GRAVITY * delta"
  defines "x1 \<equiv> vx (sb_position b) + vx (sb_velocity b) * delta"
    and "y1 \<equiv> vy (sb_position b) + v1y * delta"
    and "z1 \<equiv> vz (sb_position b) + vz (sb_velocity b) * delta"
  defines "h \<equiv> real_of_int (getTerrainHeight p x1 z1)"
  defines "y2 \<equiv> (if y1 < h then h else y1)"
  shows "snd (snd (snd (ServerBullet_update p delta ps b)))
     = sb_isActive (fst (ServerBullet_update p delta ps b))
   \<and> (\<not> sb_isActive b \<longrightarrow> ServerBullet_update p delta ps b = (b, ps, [], False))
   \<and> (sb_isActive b \<longrightarrow>
        (\<not> snd (snd (snd (ServerBullet_update p delta ps b))) \<longleftrightarrow>
           (y1 < h \<and> \<not> sb_bounceCount b < BULLET_MAX_BOUNCES)
           \<or> y2 > of_int WORLD_HEIGHT + 50
           \<or> sb_life b - delta \<le> 0
           \<or> (\<exists>(playerId, player) \<in> set ps. playerId \<noteq> sb_ownerId b \<and> sp_isAlive player
                 \<and> sqrt ((x1 - vx (sp_position player)) ^ 2 + (y2 - vy (sp_position player)) ^ 2
                        + (z1 - vz (sp_position player)) ^ 2) < 1)))
   \<and> snd (Bullet_update p rnd delta this c) = None
   \<and> (\<not> b_active (bullet_obj c this) \<longrightarrow> Bullet_update p rnd delta this c = (c, None))
   \<and> (ws_init c \<and> b_active (bullet_obj c this)
        \<and> \<not> b_active (bullet_obj (fst (Bullet_update p rnd delta this c)) this) \<longrightarrow>
        g_bullets (fst (Bullet_update p rnd delta this c)) = remove1 this (g_bullets c))
   \<and> (bullets_sound c \<and> ws_init c \<and> b_active (bullet_obj c this)
        \<and> \<not> b_active (bullet_obj (fst (Bullet_update p rnd delta this c)) this) \<longrightarrow>
        this \<notin> set (g_bullets (fst (Bullet_update p rnd delta this c))))
   \<and> (b_active (bullet_obj (fst (Bullet_update p rnd delta this c)) this) \<longrightarrow>
        g_bullets (fst (Bullet_update p rnd delta this c)) = g_bullets c)"
  unfolding assms
  using update_returns_active [of p delta ps b] update_inactive [of b p delta ps]
    update_causes [of b p delta ps]
    Bullet_update_returns_nothing [of p rnd delta this c] Bullet_update_inactive [of c this p rnd delta]
    Bullet_update_removes [of c this p rnd delta] Bullet_update_not_listed [of c this p rnd delta]
    Bullet_update_keeps [of p rnd delta this c]
  by blast

theorem update_return_value_witness:
  "sb_isActive (fst (ServerBullet_update noise42 (1 / 10) [] falling_bullet))
   \<and> snd (snd (snd (ServerBullet_update noise42 (1 / 10) [] falling_bullet)))
   \<and> \<not> sb_isActive (fst (ServerBullet_update noise42 (1 / 10) [] spent_bullet))
   \<and> \<not> snd (snd (snd (ServerBullet_update noise42 (1 / 10) [] spent_bullet)))
   \<and> sb_isActive falling_bullet
   \<and> \<not> snd (snd (snd (ServerBullet_update noise42 (1 / 10) [(''B'', target_player)]
                         falling_bullet)))
   \<and> \<not> sb_isActive (falling_bullet\<lparr> sb_isActive := False \<rparr>)
   \<and> ServerBullet_update noise42 (1 / 10) [] (falling_bullet\<lparr> sb_isActive := False \<rparr>)
       = (falling_bullet\<lparr> sb_isActive := False \<rparr>, [], [], False)
   \<and> \<not> b_active (bullet_obj started_client 0)
   \<and> Bullet_update noise42 (constant_source (1 / 2)) (1 / 100) 0 started_client
       = (started_client, None)
   \<and> ws_init (client_with_bullet_at (43 / 2))
   \<and> g_bullets (client_with_bullet_at (43 / 2)) = [0]
   \<and> b_active (bullet_obj (client_with_bullet_at (43 / 2)) 0)
   \<and> bullets_sound (client_with_bullet_at (43 / 2))
   \<and> g_bullets (fst (Bullet_update noise42 (constant_source (1 / 2)) (1 / 100) 0
         (client_with_bullet_at (43 / 2)))) = []
   \<and> 0 \<notin> set (g_bullets (fst (Bullet_update noise42 (constant_source (1 / 2)) (1 / 100) 0
         (client_with_bullet_at (43 / 2)))))
   \<and> g_bullets (fst (Bullet_update noise42 (constant_source (1 / 2)) (1 / 100) 0
         (client_with_bullet_at (81 / 2)))) = [0]"
proof -
  have n: "0 \<notin> set (g_bullets (fst (Bullet_update noise42 (constant_source (1 / 2)) (1 / 100) 0
         (client_with_bullet_at (43 / 2)))))"
    using update_return_value [where p = noise42 and delta = "1 / 100"
        and c = "client_with_bullet_at (43 / 2)" and this = 0
        and rnd = "constant_source (1 / 2)"]
      falling_client_update(1) client_with_bullet_sound [of "43 / 2"]
    by (simp add: client_with_bullet)
  note j = client_with_bullet_sound [of "43 / 2"]
  have r: "g_bullets (fst (Bullet_update noise42 (constant_source (1 / 2)) (1 / 100) 0
         (client_with_bullet_at (43 / 2)))) = []"
    using update_return_value [where p = noise42 and delta = "1 / 100"
        and c = "client_with_bullet_at (43 / 2)" and this = 0
        and rnd = "constant_source (1 / 2)"]
      falling_client_update(1)
    by (simp add: client_with_bullet)
  have k: "g_bullets (fst (Bullet_update noise42 (constant_source (1 / 2)) (1 / 100) 0
         (client_with_bullet_at (81 / 2)))) = [0]"
    using update_return_value [where p = noise42 and delta = "1 / 100"
        and c = "client_with_bullet_at (81 / 2)" and this = 0
        and rnd = "constant_source (1 / 2)"]
      flying_client_update
    by (simp add: client_with_bullet)
  have i: "ws_init (client_with_bullet_at (43 / 2))"
    "g_bullets (client_with_bullet_at (43 / 2)) = [0]"
    "b_active (bullet_obj (client_with_bullet_at (43 / 2)) 0)"
    by (simp_all add: client_with_bullet)
  have a: "sb_isActive (fst (ServerBullet_update noise42 (1 / 10) [] falling_bullet))"
    by (simp add: falling_bullet_update) (simp add: falling_bullet_def new_ServerBullet_def)
  have b: "\<not> sb_isActive (fst (ServerBullet_update noise42 (1 / 10) [] spent_bullet))"
    using spent_bullet_update by blast
  have c: "\<not> b_active (bullet_obj started_client 0)"
    by (simp add: started_client_def initial_client_def new_Bullet_def)
  have f: "sb_isActive falling_bullet" "sb_ownerId falling_bullet = ''A''"
    "sb_position falling_bullet = \<lparr> vx = 0, vy = 22, vz = 0 \<rparr>"
    "sb_velocity falling_bullet = \<lparr> vx = 0, vy = - 10, vz = 0 \<rparr>"
    by (simp_all add: falling_bullet_def new_ServerBullet_def)
  have t: "sp_isAlive target_player" "sp_position target_player = \<lparr> vx = 0, vy = 21, vz = 0 \<rparr>"
    by (simp_all add: target_player_def new_ServerPlayer_def)
  have d: "\<not> snd (snd (snd (ServerBullet_update noise42 (1 / 10) [(''B'', target_player)]
                         falling_bullet)))"
    using update_return_value [where p = noise42 and delta = "1 / 10"
        and ps = "[(''B'', target_player)]" and b = falling_bullet] f t
    by (auto simp: height_origin BULLET_GRAVITY_def)
  from a b c d f(1) r k i n j show ?thesis
    using update_return_value [where p = noise42 and delta = "1 / 10" and ps = "[]"
        and b = falling_bullet]
      update_return_value [where p = noise42 and delta = "1 / 10" and ps = "[]"
        and b = spent_bullet]
      update_return_value [where p = noise42 and delta = "1 / 10" and ps = "[]"
        and b = "falling_bullet\<lparr> sb_isActive := False \<rparr>"]
      update_return_value [where p = noise42 and delta = "1 / 100" and c = started_client
        and this = 0 and rnd = "constant_source (1 / 2)"]
    by simp
qed

text \<open>
  The claim as stated fails for the client: a bullet that is active before and after the
  call does not make \<^verbatim>\<open>update\<close> return true.
\<close>

theorem client_update_returns_no_boolean:
  "b_active (bullet_obj (client_with_bullet_at (81 / 2)) 0)
   \<and> b_active (bullet_obj (fst (Bullet_update noise42 (constant_source (1 / 2)) (1 / 100) 0
        (client_with_bullet_at (81 / 2)))) 0)
   \<and> snd (Bullet_update noise42 (constant_source (1 / 2)) (1 / 100) 0
        (client_with_bullet_at (81 / 2))) \<noteq> Some True"
  by (simp add: flying_client_update client_with_bullet Bullet_update_returns_nothing)

text \<open>
  \<^verbatim>\<open>Bullet.update\<close> keeps the bookkeeping of the bullets sound as well: a bullet that it
  deactivates is active, hence neither pooled nor unconstructed.
\<close>

lemma Bullet_deactivate_sound:
  assumes "bullets_sound s" and "b_active (bullet_obj s this)"
  shows "bullets_sound (Bullet_deactivate this s)"
proof -
  from assms have this: "this < ws_pool_created s" "this \<notin> set (ws_pool_available s)"
    by (auto simp: bullets_sound_def list_all_iff)
  show ?thesis
  proof (cases "ws_init s")
    case True
    with assms this show ?thesis
      by (auto simp: bullets_sound_def Bullet_deactivate_def releaseBullet_def Let_def
          list_all_iff dest: notin_set_remove1)
  next
    case False
    with assms have "g_bullets s = []" by (simp add: bullets_sound_def)
    with assms this False show ?thesis
      by (auto simp: bullets_sound_def Bullet_deactivate_def releaseBullet_def Let_def
          list_all_iff)
  qed
qed

lemma bullets_sound_moved:
  assumes "bullets_sound s" and "b_active b = b_active (bullet_obj s this)"
  shows "bullets_sound (s\<lparr> bullet_obj := (bullet_obj s)(this := b) \<rparr>)"
  using assms by (auto simp: bullets_sound_def list_all_iff)

lemma Bullet_update_sound:
  assumes "bullets_sound s"
  shows "bullets_sound (fst (Bullet_update p rnd delta this s))"
proof (cases "b_active (bullet_obj s this)")
  case False
  with assms show ?thesis by (simp add: Bullet_update_inactive)
next
  case True
  define b1 where "b1 = (bullet_obj s this)\<lparr> b_previousPosition := b_position (bullet_obj s this),
      b_position := addScaledVector (b_position (bullet_obj s this)) (b_velocity (bullet_obj s this)) delta \<rparr>"
  define s1 where "s1 = s\<lparr> bullet_obj := (bullet_obj s)(this := b1) \<rparr>"
  have s1: "bullets_sound s1" "b_active (bullet_obj s1 this)"
    unfolding s1_def using assms True by (auto intro: bullets_sound_moved simp: b1_def)
  have hit: "bullets_sound (Bullet_deactivate this (fst (Enemy_takeDamage e d s1)))" for e d
  proof (rule Bullet_deactivate_sound)
    show "bullets_sound (fst (Enemy_takeDamage e d s1))"
      using s1(1) by (rule bullets_sound_fields) (simp_all add: Enemy_takeDamage_bullets)
    show "b_active (bullet_obj (fst (Enemy_takeDamage e d s1)) this)"
      using s1(2) by (simp add: Enemy_takeDamage_bullets)
  qed
  have s2: "bullets_sound (s1\<lparr> draws := k \<rparr>)" "b_active (bullet_obj (s1\<lparr> draws := k \<rparr>) this)" for k
    using s1 by (auto intro: bullets_sound_fields [OF s1(1)])
  have s3: "bullets_sound (s1\<lparr> draws := k, bullet_obj := (bullet_obj s1)(this := b1\<lparr> b_life := l \<rparr>) \<rparr>)"
    "b_active (bullet_obj (s1\<lparr> draws := k, bullet_obj := (bullet_obj s1)(this := b1\<lparr> b_life := l \<rparr>) \<rparr>) this)"
    for k l
    using bullets_sound_moved [OF s2(1) [of k], of "b1\<lparr> b_life := l \<rparr>" this] s1(2)
    by (simp_all add: s1_def b1_def True)
  show ?thesis
    using True hit s2 s3 Bullet_deactivate_sound [OF s2] Bullet_deactivate_sound [OF s3]
    by (simp add: Bullet_update_def Let_def b1_def [symmetric] s1_def [symmetric]
        split: option.splits prod.splits)
qed

end
